theory Spec2Isabelle
  imports Complex_Main
begin

section \<open>JavaScript values at the untyped boundaries\<close>

text \<open>
  The handlers receive two kinds of untyped data: the parsed JSON body of the backend
  response (\<open>any\<close>) and the value caught by \<open>catch (err: any)\<close>. Both are modelled by
  small datatypes. A string is a list of code units below 256. A parsed JSON object is
  an association list with unique keys (the first entry of a key is the one read); a JSON
  array is an object whose keys are its indices.
\<close>

datatype jsnum = Num rat | PosInfinity | NegInfinity | NaN

datatype jsval =
    JUndefined
  | JNull
  | JBool bool
  | JNum jsnum
  | JStr string
  | JObj "(string \<times> jsval) list"

fun isFinite :: "jsnum \<Rightarrow> bool" where
  "isFinite (Num r) = True"
| "isFinite PosInfinity = False"
| "isFinite NegInfinity = False"
| "isFinite NaN = False"

text \<open>\<open>x <= 0\<close> on numbers: false for NaN and for plus infinity.\<close>

fun le_zero :: "jsnum \<Rightarrow> bool" where
  "le_zero (Num r) = (r \<le> 0)"
| "le_zero PosInfinity = False"
| "le_zero NegInfinity = True"
| "le_zero NaN = False"

fun truthy :: "jsval \<Rightarrow> bool" where
  "truthy JUndefined = False"
| "truthy JNull = False"
| "truthy (JBool b) = b"
| "truthy (JNum (Num r)) = (r \<noteq> 0)"
| "truthy (JNum PosInfinity) = True"
| "truthy (JNum NegInfinity) = True"
| "truthy (JNum NaN) = False"
| "truthy (JStr s) = (s \<noteq> [])"
| "truthy (JObj fs) = True"

text \<open>\<open>a || b\<close>: the left operand when it is truthy, the right one otherwise.\<close>

definition js_or :: "jsval \<Rightarrow> jsval \<Rightarrow> jsval" where
  "js_or a b = (if truthy a then a else b)"

text \<open>
  \<open>v.k\<close> for a value that is neither null nor undefined: the entry of an object, and
  undefined for an absent key or a primitive (none of the keys the handlers read is a
  member of a primitive's prototype).
\<close>

fun field :: "jsval \<Rightarrow> string \<Rightarrow> jsval" where
  "field (JObj fs) k = (case map_of fs k of Some v \<Rightarrow> v | None \<Rightarrow> JUndefined)"
| "field v k = JUndefined"

fun nullish :: "jsval \<Rightarrow> bool" where
  "nullish JUndefined = True"
| "nullish JNull = True"
| "nullish v = False"

text \<open>What a \<open>throw\<close> or a rejected promise carries, as far as the catch blocks tell apart.\<close>

datatype thrown = ErrorObj string | ThrownString string | ThrownOther

text \<open>
  The catch blocks' message:
  \<^verbatim>\<open>(err && typeof err.message === "string" && err.message) ||
  (typeof err === "string" && err) || fallback\<close>
\<close>

definition error_message :: "string \<Rightarrow> thrown \<Rightarrow> string" where
  "error_message fallback err =
     (case err of
        ErrorObj m \<Rightarrow> if m \<noteq> [] then m else fallback
      | ThrownString s \<Rightarrow> if s \<noteq> [] then s else fallback
      | ThrownOther \<Rightarrow> fallback)"

text \<open>Decimal rendering of a status code inside a template string.\<close>

fun string_of_nat :: "nat \<Rightarrow> string" where
  "string_of_nat n =
     (if n < 10 then [''0123456789'' ! n]
      else string_of_nat (n div 10) @ [''0123456789'' ! (n mod 10)])"

declare string_of_nat.simps [simp del]

text \<open>\<open>String.prototype.trim\<close> on code units below 256.\<close>

definition js_space :: "char \<Rightarrow> bool" where
  "js_space c = ((of_char c :: nat) \<in> {9, 10, 11, 12, 13, 32, 160})"

definition trim :: "string \<Rightarrow> string" where
  "trim s = rev (dropWhile js_space (rev (dropWhile js_space s)))"

section \<open>Transactions, wallet, backend and network\<close>

type_synonym bytes = "nat list"

datatype PublicKey = PublicKey string

fun toBase58 :: "PublicKey \<Rightarrow> string" where
  "toBase58 (PublicKey s) = s"

record Transaction =
  feePayer :: "PublicKey option"
  message :: bytes

datatype VersionedTransaction = VersionedTransaction bytes

datatype AnyTransaction = Legacy Transaction | Versioned VersionedTransaction

datatype Connection = Connection string string

record request =
  fromPubkey :: string
  toPubkey :: "string option"
  amountUi :: jsnum
  cluster :: string

record response =
  resp_ok :: bool
  resp_status :: nat
  resp_json :: "thrown + jsval"

text \<open>
  Everything the handlers call and do not own: the JavaScript runtime, the HTTP client,
  the transaction library and the network connection. Each is a function from the
  arguments of the call to what the call returns or throws (\<open>Inl\<close>).
\<close>

record world =
  Number_of :: "string \<Rightarrow> jsnum"
  ToString :: "jsval \<Rightarrow> string"
  TypeError_message :: "jsval \<Rightarrow> string \<Rightarrow> string"
  fetch :: "string \<Rightarrow> request \<Rightarrow> thrown + response"
  Buffer_from_base64 :: "jsval \<Rightarrow> thrown + bytes"
  atob :: "string \<Rightarrow> thrown + string"
  Transaction_from :: "bytes \<Rightarrow> thrown + Transaction"
  VersionedTransaction_deserialize :: "bytes \<Rightarrow> thrown + VersionedTransaction"
  serialize :: "Transaction \<Rightarrow> thrown + bytes"
  sendRawTransaction :: "bytes \<Rightarrow> thrown + string"
  confirmTransaction :: "string \<Rightarrow> string \<Rightarrow> thrown + unit"
  new_Connection :: "string \<Rightarrow> string \<Rightarrow> thrown + Connection"

text \<open>The wallet handle of \<open>useWallet()\<close>, injected by the host.\<close>

record wallet =
  connected :: bool
  publicKey :: "PublicKey option"
  signTransaction :: "(Transaction \<Rightarrow> thrown + Transaction) option"
  sendTransaction :: "Transaction \<Rightarrow> Connection \<Rightarrow> thrown + string"

text \<open>\<open>import.meta.env\<close>, as far as the handlers read it.\<close>

record env =
  VITE_BACKEND_BASE_URL :: "string option"
  VITE_SOLANA_CLUSTER :: "string option"

text \<open>\<open>import.meta.env.X || fallback\<close>\<close>

definition env_or :: "string option \<Rightarrow> string \<Rightarrow> string" where
  "env_or v fallback = (case v of None \<Rightarrow> fallback | Some s \<Rightarrow> if s \<noteq> [] then s else fallback)"

datatype NetworkName = devnet | mainnet_beta

fun network_name :: "NetworkName \<Rightarrow> string" where
  "network_name devnet = ''devnet''"
| "network_name mainnet_beta = ''mainnet-beta''"

record AksolNetworkConfig =
  name :: NetworkName
  label :: string
  programId :: string
  mint :: string
  configPda :: "string option"
  rpcUrl :: string

section \<open>Observable effects\<close>

text \<open>
  A handler's run is the list of the calls it makes, in order: the state setters of the
  component, the activity log, the console, and every external call with its arguments.
\<close>

datatype event =
    PreventDefault
  | SetError "string option"
  | SetLastSig jsval
  | SetTxSig jsval
  | SetLoading bool
  | LogAction string jsval
  | ConsoleLog string
  | ConsoleError string
  | Fetch string request
  | ReadJson
  | BufferFrom jsval
  | Atob string
  | TransactionFrom bytes
  | DeserializeVersioned bytes
  | SignTransaction Transaction
  | Serialize Transaction
  | SendRawTransaction bytes
  | ConfirmTransaction string string
  | NewConnection string string
  | SendTransaction Transaction Connection

text \<open>A computation inside a \<open>try\<close> block: the calls made so far, and a value or a throw.\<close>

type_synonym 'a exec = "event list \<times> (thrown + 'a)"

definition ret :: "'a \<Rightarrow> 'a exec" where
  "ret x = ([], Inr x)"

definition throw :: "thrown \<Rightarrow> 'a exec" where
  "throw e = ([], Inl e)"

definition emit :: "event \<Rightarrow> unit exec" where
  "emit ev = ([ev], Inr ())"

text \<open>An external call: recorded, then its result or its throw.\<close>

definition call :: "event \<Rightarrow> (thrown + 'a) \<Rightarrow> 'a exec" where
  "call ev r = ([ev], r)"

definition andThen :: "'a exec \<Rightarrow> ('a \<Rightarrow> 'b exec) \<Rightarrow> 'b exec" where
  "andThen m f =
     (case m of
        (tr, Inl e) \<Rightarrow> (tr, Inl e)
      | (tr, Inr x) \<Rightarrow> (case f x of (tr', r) \<Rightarrow> (tr @ tr', r)))"

definition try_catch :: "'a exec \<Rightarrow> (thrown \<Rightarrow> 'a exec) \<Rightarrow> 'a exec" where
  "try_catch m h =
     (case m of
        (tr, Inl e) \<Rightarrow> (case h e of (tr', r) \<Rightarrow> (tr @ tr', r))
      | (tr, Inr x) \<Rightarrow> (tr, Inr x))"

text \<open>
  The first property read of a response body throws a TypeError on null; after it the
  body's properties are read with \<open>field\<close>.
\<close>

definition reading :: "world \<Rightarrow> jsval \<Rightarrow> string \<Rightarrow> unit exec" where
  "reading w v k = (if nullish v then throw (ErrorObj (TypeError_message w v k)) else ret ())"

text \<open>\<open>new Error(v)\<close> takes \<open>ToString(v)\<close> as its message.\<close>

definition js_String :: "world \<Rightarrow> jsval \<Rightarrow> string" where
  "js_String w v = (case v of JStr s \<Rightarrow> s | _ \<Rightarrow> ToString w v)"

text \<open>
  The shared shape of the handlers' \<open>try { ... } catch (err) { ... } finally { ... }\<close>:
  the catch block logs to the console, sets the error and appends a failure to the
  activity log; the finally block clears the loading flag on every exit of the try block,
  an early \<open>return\<close> included.
\<close>

definition catch_finally :: "string \<Rightarrow> string \<Rightarrow> string \<Rightarrow> unit exec \<Rightarrow> event list" where
  "catch_finally console_label fallback prefix body =
     (case body of
        (tr, Inr u) \<Rightarrow> tr @ [SetLoading False]
      | (tr, Inl err) \<Rightarrow>
          tr @ [ConsoleError console_label,
                SetError (Some (error_message fallback err)),
                LogAction (prefix @ error_message fallback err) JUndefined,
                SetLoading False])"

section \<open>The activity log (App.tsx)\<close>

record ActivityItem =
  id_item :: string
  label_item :: string
  timestamp :: string
  signature :: jsval

text \<open>
  \<open>logAction\<close>: the clock and the random suffix are read from the host, so they are
  arguments here. \<open>[item, ...prev].slice(0, 3)\<close> is \<open>take 3 (item # prev)\<close>.
\<close>

definition new_item :: "nat \<Rightarrow> string \<Rightarrow> string \<Rightarrow> string \<Rightarrow> jsval \<Rightarrow> ActivityItem" where
  "new_item date_now random_suffix iso_now lbl sg =
     \<lparr> id_item = string_of_nat date_now @ ''-'' @ random_suffix,
       label_item = lbl,
       timestamp = iso_now,
       signature = sg \<rparr>"

definition logAction ::
  "nat \<Rightarrow> string \<Rightarrow> string \<Rightarrow> string \<Rightarrow> jsval \<Rightarrow> ActivityItem list \<Rightarrow> ActivityItem list" where
  "logAction date_now random_suffix iso_now lbl sg prev =
     take 3 (new_item date_now random_suffix iso_now lbl sg # prev)"

text \<open>
  The \<open>activities\<close> state: \<open>useState([])\<close>, and \<open>logAction\<close> is the only caller of its
  setter. A call is given by what it reads from the host and its two arguments; the
  state after a sequence of calls, oldest call first:
\<close>

type_synonym log_call = "nat \<times> string \<times> string \<times> string \<times> jsval"

fun item_of :: "log_call \<Rightarrow> ActivityItem" where
  "item_of (date_now, random_suffix, iso_now, lbl, sg) =
     new_item date_now random_suffix iso_now lbl sg"

fun apply_call :: "ActivityItem list \<Rightarrow> log_call \<Rightarrow> ActivityItem list" where
  "apply_call prev (date_now, random_suffix, iso_now, lbl, sg) =
     logAction date_now random_suffix iso_now lbl sg prev"

definition activities_after :: "log_call list \<Rightarrow> ActivityItem list" where
  "activities_after calls = foldl apply_call [] calls"

section \<open>Envelope decoding (lib/solanaTx.ts)\<close>

text \<open>
  The copy loop of \<open>base64ToUint8Array\<close>:
  \<^verbatim>\<open>for (let i = 0; i < binary.length; i++) bytes[i] = binary.charCodeAt(i);\<close>
\<close>

function copy_char_codes :: "string \<Rightarrow> nat \<Rightarrow> bytes \<Rightarrow> bytes" where
  "copy_char_codes binary i bs =
     (if i < length binary
      then copy_char_codes binary (Suc i) (bs[i := of_char (binary ! i)])
      else bs)"
  by pat_completeness auto
termination
  by (relation "measure (\<lambda>(binary, i, bs). length binary - i)") auto

declare copy_char_codes.simps [simp del]

definition base64ToUint8Array :: "world \<Rightarrow> string \<Rightarrow> bytes exec" where
  "base64ToUint8Array w base64 =
     andThen (call (Atob base64) (atob w base64)) (\<lambda>binary.
       ret (copy_char_codes binary 0 (replicate (length binary) 0)))"

definition decodeTransaction :: "world \<Rightarrow> string \<Rightarrow> AnyTransaction exec" where
  "decodeTransaction w base64 =
     andThen (base64ToUint8Array w base64) (\<lambda>bs.
       try_catch
         (andThen (call (DeserializeVersioned bs) (VersionedTransaction_deserialize w bs))
            (\<lambda>v. ret (Versioned v)))
         (\<lambda>e. andThen (call (TransactionFrom bs) (Transaction_from w bs))
            (\<lambda>t. ret (Legacy t))))"

section \<open>The submit handlers\<close>

text \<open>
  Four handlers submit a transfer: \<open>PurchaseCard.handleSubmit\<close> (src/unnamed/part_000) and
  three versions of \<open>TaxedSendCard.handleSubmit\<close>: the first in src/unnamed/part_001, the
  second and the third in src/unnamed/part_002, in this order. The statements they share
  word for word are defined once.

  The first guard of three of them, \<open>!wallet.connected || !wallet.publicKey\<close>, lets a run
  pass exactly when the wallet is connected and has a public key; the key is then the one
  the rest of the handler reads.
\<close>

text \<open>
  \<^verbatim>\<open>const resp = await fetch(url, { method: "POST", ..., body: JSON.stringify(req) });
  if (!resp.ok) { throw new Error(`Backend HTTP ${resp.status}`); }
  const json = await resp.json();\<close>
\<close>

definition post_json :: "world \<Rightarrow> string \<Rightarrow> request \<Rightarrow> jsval exec" where
  "post_json w url req =
     andThen (call (Fetch url req) (fetch w url req)) (\<lambda>resp.
       if \<not> resp_ok resp
       then throw (ErrorObj (''Backend HTTP '' @ string_of_nat (resp_status resp)))
       else call ReadJson (resp_json resp))"

text \<open>
  \<^verbatim>\<open>const tx = Transaction.from(Buffer.from(base64, "base64"));
  tx.feePayer = wallet.publicKey;
  const signed = await wallet.signTransaction(tx);
  const sig = await connection.sendRawTransaction(signed.serialize());
  await connection.confirmTransaction(sig, "confirmed");\<close>
\<close>

definition sign_send_confirm ::
  "world \<Rightarrow> PublicKey \<Rightarrow> (Transaction \<Rightarrow> thrown + Transaction) \<Rightarrow> jsval \<Rightarrow> string exec" where
  "sign_send_confirm w pk sign base64 =
     andThen (call (BufferFrom base64) (Buffer_from_base64 w base64)) (\<lambda>buf.
     andThen (call (TransactionFrom buf) (Transaction_from w buf)) (\<lambda>tx0.
     andThen (ret (tx0\<lparr>feePayer := Some pk\<rparr>)) (\<lambda>tx.
     andThen (call (SignTransaction tx) (sign tx)) (\<lambda>signed.
     andThen (call (Serialize signed) (serialize w signed)) (\<lambda>raw.
     andThen (call (SendRawTransaction raw) (sendRawTransaction w raw)) (\<lambda>sig.
     andThen (call (ConfirmTransaction sig ''confirmed'') (confirmTransaction w sig ''confirmed''))
       (\<lambda>u. ret sig)))))))"

subsection \<open>PurchaseCard\<close>

definition PurchaseCard_try ::
  "world \<Rightarrow> env \<Rightarrow> PublicKey \<Rightarrow> (Transaction \<Rightarrow> thrown + Transaction) \<Rightarrow> jsnum \<Rightarrow> unit exec" where
  "PurchaseCard_try w e pk sign parsedAmount =
     andThen (post_json w
        (env_or (VITE_BACKEND_BASE_URL e) ''http://localhost:8080'' @ ''/aksol/zero-percent-purchase'')
        \<lparr> fromPubkey = toBase58 pk, toPubkey = None, amountUi = parsedAmount,
          cluster = env_or (VITE_SOLANA_CLUSTER e) ''devnet'' \<rparr>) (\<lambda>json.
     andThen (reading w json ''ok'') (\<lambda>u.
       if \<not> truthy (field json ''ok'') \<or> \<not> truthy (field json ''transaction'')
       then throw (ErrorObj (js_String w
              (js_or (field json ''error'') (JStr ''Backend did not return a transaction.''))))
       else
         andThen (sign_send_confirm w pk sign (field json ''transaction'')) (\<lambda>sig.
         andThen (emit (SetLastSig (JStr sig))) (\<lambda>u.
           emit (LogAction ''0% route purchase submitted'' (JStr sig))))))"

definition PurchaseCard_handleSubmit :: "world \<Rightarrow> env \<Rightarrow> wallet \<Rightarrow> string \<Rightarrow> event list" where
  "PurchaseCard_handleSubmit w e wal amount =
     [PreventDefault, SetError None, SetLastSig JNull] @
     (case (if connected wal then publicKey wal else None) of
        None \<Rightarrow>
          [SetError (Some ''Connect a wallet before using the 0% route.''),
           LogAction ''0% purchase failed: no wallet connected'' JUndefined]
      | Some pk \<Rightarrow>
          (case signTransaction wal of
             None \<Rightarrow>
               [SetError (Some ''Current wallet does not support transaction signing.''),
                LogAction ''0% purchase failed: wallet cannot sign'' JUndefined]
           | Some sign \<Rightarrow>
               (let parsedAmount = Number_of w amount in
                if \<not> isFinite parsedAmount \<or> le_zero parsedAmount
                then [SetError (Some ''Amount must be a positive number.'')]
                else
                  [SetLoading True] @
                  catch_finally ''0% purchase error:'' ''0% purchase failed.''
                    ''0% purchase failed: ''
                    (PurchaseCard_try w e pk sign parsedAmount))))"

subsection \<open>TaxedSendCard, first version\<close>

definition TaxedSendCard_try ::
  "world \<Rightarrow> env \<Rightarrow> PublicKey \<Rightarrow> (Transaction \<Rightarrow> thrown + Transaction) \<Rightarrow> string \<Rightarrow> jsnum
     \<Rightarrow> unit exec" where
  "TaxedSendCard_try w e pk sign trimmedTo parsedAmount =
     andThen (post_json w
        (env_or (VITE_BACKEND_BASE_URL e) ''http://localhost:8080'' @ ''/aksol/send-taxed-tx'')
        \<lparr> fromPubkey = toBase58 pk, toPubkey = Some trimmedTo, amountUi = parsedAmount,
          cluster = env_or (VITE_SOLANA_CLUSTER e) ''devnet'' \<rparr>) (\<lambda>json.
     andThen (reading w json ''ok'') (\<lambda>u.
       if \<not> truthy (field json ''ok'') \<or> \<not> truthy (field json ''transaction'')
       then throw (ErrorObj (js_String w
              (js_or (field json ''error'') (JStr ''Backend did not return a transaction.''))))
       else
         andThen (sign_send_confirm w pk sign (field json ''transaction'')) (\<lambda>sig.
         andThen (emit (SetLastSig (JStr sig))) (\<lambda>u.
           emit (LogAction ''Taxed send submitted'' (JStr sig))))))"

definition TaxedSendCard_handleSubmit ::
  "world \<Rightarrow> env \<Rightarrow> wallet \<Rightarrow> string \<Rightarrow> string \<Rightarrow> event list" where
  "TaxedSendCard_handleSubmit w e wal toAddress amount =
     [PreventDefault, SetError None, SetLastSig JNull] @
     (case (if connected wal then publicKey wal else None) of
        None \<Rightarrow>
          [SetError (Some ''Connect a wallet before sending with tax.''),
           LogAction ''Taxed send failed: no wallet connected'' JUndefined]
      | Some pk \<Rightarrow>
          (case signTransaction wal of
             None \<Rightarrow>
               [SetError (Some ''Current wallet does not support transaction signing.''),
                LogAction ''Taxed send failed: wallet cannot sign'' JUndefined]
           | Some sign \<Rightarrow>
               (let trimmedTo = trim toAddress; parsedAmount = Number_of w amount in
                if trimmedTo = []
                then [SetError (Some ''Please enter a recipient address.'')]
                else if \<not> isFinite parsedAmount \<or> le_zero parsedAmount
                then [SetError (Some ''Amount must be a positive number.'')]
                else
                  [SetLoading True] @
                  catch_finally ''Taxed send error:'' ''Taxed send failed.''
                    ''Taxed send failed: ''
                    (TaxedSendCard_try w e pk sign trimmedTo parsedAmount))))"

subsection \<open>TaxedSendCard, second version (either response shape, \<open>signTransaction\<close>)\<close>

text \<open>
  \<^verbatim>\<open>data.signature || data.txSignature || data.transactionSignature || data.sig\<close>
\<close>

definition signature_of4 :: "jsval \<Rightarrow> jsval" where
  "signature_of4 data =
     js_or (js_or (js_or (field data ''signature'') (field data ''txSignature''))
                  (field data ''transactionSignature''))
           (field data ''sig'')"

text \<open>
  \<^verbatim>\<open>data.transaction || data.tx || data.txBase64 || data.serializedTx\<close>
\<close>

definition base64Tx_of :: "jsval \<Rightarrow> jsval" where
  "base64Tx_of data =
     js_or (js_or (js_or (field data ''transaction'') (field data ''tx''))
                  (field data ''txBase64''))
           (field data ''serializedTx'')"

definition modeLabel :: "bool \<Rightarrow> string" where
  "modeLabel isMainnet = (if isMainnet then ''MAINNET'' else ''devnet'')"

definition TaxedSendCard2_try ::
  "world \<Rightarrow> env \<Rightarrow> bool \<Rightarrow> PublicKey \<Rightarrow> (Transaction \<Rightarrow> thrown + Transaction) \<Rightarrow> string
     \<Rightarrow> jsnum \<Rightarrow> unit exec" where
  "TaxedSendCard2_try w e isMainnet pk sign toAddress parsedAmount =
     andThen (post_json w
        (env_or (VITE_BACKEND_BASE_URL e) ''http://localhost:8080'' @ ''/aksol/send-taxed-tx'')
        \<lparr> fromPubkey = toBase58 pk, toPubkey = Some (trim toAddress), amountUi = parsedAmount,
          cluster = (if isMainnet then ''mainnet-beta'' else ''devnet'') \<rparr>) (\<lambda>data.
     andThen (emit (ConsoleLog ''Backend /aksol/send-taxed-tx response:'')) (\<lambda>u.
     andThen (reading w data ''signature'') (\<lambda>u.
       if truthy (signature_of4 data)
       then
         andThen (emit (SetTxSig (signature_of4 data))) (\<lambda>u.
           emit (LogAction (''Taxed send ('' @ modeLabel isMainnet @ '')'') (signature_of4 data)))
       else if \<not> truthy (base64Tx_of data)
       then throw (ErrorObj
         ''Backend did not return a signature or transaction. Check console logs for full response.'')
       else
         andThen (sign_send_confirm w pk sign (base64Tx_of data)) (\<lambda>sig.
         andThen (emit (SetTxSig (JStr sig))) (\<lambda>u.
           emit (LogAction (''Taxed send ('' @ modeLabel isMainnet @ '')'') (JStr sig)))))))"

definition TaxedSendCard2_handleSubmit ::
  "world \<Rightarrow> env \<Rightarrow> bool \<Rightarrow> wallet \<Rightarrow> string \<Rightarrow> string \<Rightarrow> event list" where
  "TaxedSendCard2_handleSubmit w e isMainnet wal toAddress amountUi_input =
     [PreventDefault, SetError None, SetTxSig JNull] @
     (case (if connected wal then publicKey wal else None) of
        None \<Rightarrow>
          [SetError (Some ''Connect a wallet before sending with tax.''),
           LogAction ''Taxed send failed: no wallet connected'' JUndefined]
      | Some pk \<Rightarrow>
          (case signTransaction wal of
             None \<Rightarrow>
               [SetError (Some ''Current wallet does not support transaction signing.''),
                LogAction ''Taxed send failed: wallet cannot sign'' JUndefined]
           | Some sign \<Rightarrow>
               (let parsedAmount = Number_of w amountUi_input in
                if \<not> isFinite parsedAmount \<or> le_zero parsedAmount
                then [SetError (Some ''Amount must be a positive number.'')]
                else if toAddress = [] \<or> length (trim toAddress) < 8
                then [SetError (Some ''AKSOL recipient address looks incomplete.'')]
                else
                  [SetLoading True] @
                  catch_finally ''Taxed send error:'' ''Taxed send failed.''
                    ''Taxed send failed: ''
                    (TaxedSendCard2_try w e isMainnet pk sign toAddress parsedAmount))))"

subsection \<open>TaxedSendCard, third version (either response shape, \<open>sendTransaction\<close>)\<close>

text \<open>
  \<^verbatim>\<open>data.signature || data.txSignature || data.transactionSignature\<close>
\<close>

definition signature_of3 :: "jsval \<Rightarrow> jsval" where
  "signature_of3 data =
     js_or (js_or (field data ''signature'') (field data ''txSignature''))
           (field data ''transactionSignature'')"

text \<open>The helper of this version of the file; the same loop as \<open>base64ToUint8Array\<close>.\<close>

definition decodeBase64ToBytes :: "world \<Rightarrow> string \<Rightarrow> bytes exec" where
  "decodeBase64ToBytes w b64 =
     andThen (call (Atob b64) (atob w b64)) (\<lambda>binary.
       ret (copy_char_codes binary 0 (replicate (length binary) 0)))"

text \<open>
  The slow path of this version. \<open>atob\<close> converts its argument with \<open>ToString\<close>.
  \<^verbatim>\<open>const rawTx = decodeBase64ToBytes(base64Tx);
  const tx = Transaction.from(rawTx);
  const connection = new Connection(networkConfig.rpcUrl, "confirmed");
  signature = await sendTransaction(tx, connection);\<close>
\<close>

definition decode_and_send ::
  "world \<Rightarrow> wallet \<Rightarrow> AksolNetworkConfig \<Rightarrow> jsval \<Rightarrow> string exec" where
  "decode_and_send w wal networkConfig base64Tx =
     andThen (decodeBase64ToBytes w (js_String w base64Tx)) (\<lambda>rawTx.
     andThen (call (TransactionFrom rawTx) (Transaction_from w rawTx)) (\<lambda>tx.
     andThen (call (NewConnection (rpcUrl networkConfig) ''confirmed'')
                (new_Connection w (rpcUrl networkConfig) ''confirmed'')) (\<lambda>conn.
       call (SendTransaction tx conn) (sendTransaction wal tx conn))))"

text \<open>
  \<^verbatim>\<open>let signature = data.signature || data.txSignature || data.transactionSignature;
  if (!signature) { ...; if (!base64Tx) { throw ... } ...; signature = await sendTransaction(tx, connection); }\<close>
  The value of \<open>signature\<close> after the \<open>if\<close> statement.
\<close>

definition TaxedSendCard3_signature ::
  "world \<Rightarrow> wallet \<Rightarrow> AksolNetworkConfig \<Rightarrow> jsval \<Rightarrow> jsval exec" where
  "TaxedSendCard3_signature w wal networkConfig data =
     (if \<not> truthy (signature_of3 data)
      then
        (if \<not> truthy (base64Tx_of data)
         then throw (ErrorObj
           ''Backend did not return a signature or transaction. Check server logs.'')
         else andThen (decode_and_send w wal networkConfig (base64Tx_of data))
                (\<lambda>sig. ret (JStr sig)))
      else ret (signature_of3 data))"

definition TaxedSendCard3_try ::
  "world \<Rightarrow> wallet \<Rightarrow> AksolNetworkConfig \<Rightarrow> string \<Rightarrow> string \<Rightarrow> string \<Rightarrow> jsnum
     \<Rightarrow> unit exec" where
  "TaxedSendCard3_try w wal networkConfig backendBaseUrl walletPublicKey toAddress parsedAmount =
     andThen (post_json w (backendBaseUrl @ ''/aksol/send-taxed-tx'')
        \<lparr> fromPubkey = walletPublicKey, toPubkey = Some toAddress, amountUi = parsedAmount,
          cluster = network_name (name networkConfig) \<rparr>) (\<lambda>data.
     andThen (emit (ConsoleLog ''Backend /aksol/send-taxed-tx response:'')) (\<lambda>u.
     andThen (reading w data ''signature'') (\<lambda>u.
     andThen (TaxedSendCard3_signature w wal networkConfig data) (\<lambda>sg.
     andThen (emit (SetTxSig sg)) (\<lambda>u.
       emit (LogAction (''Taxed send ('' @ modeLabel (name networkConfig = mainnet_beta) @ '')'')
               sg))))))"

definition TaxedSendCard3_handleSubmit ::
  "world \<Rightarrow> wallet \<Rightarrow> AksolNetworkConfig \<Rightarrow> string option \<Rightarrow> string option \<Rightarrow> string
     \<Rightarrow> string \<Rightarrow> event list" where
  "TaxedSendCard3_handleSubmit w wal networkConfig backendBaseUrl walletPublicKey toAddress
       amountUi_input =
     [PreventDefault, SetError None, SetTxSig JNull] @
     (case (case backendBaseUrl of None \<Rightarrow> None | Some url \<Rightarrow> if url = [] then None else Some url) of
        None \<Rightarrow>
          [SetError (Some ''Backend URL is not configured.''),
           LogAction ''Taxed send failed: backend URL not set'' JUndefined]
      | Some url \<Rightarrow>
          (case (case walletPublicKey of None \<Rightarrow> None | Some k \<Rightarrow> if k = [] then None else Some k) of
             None \<Rightarrow>
               [SetError (Some ''Connect a wallet before using the taxed send route.''),
                LogAction ''Taxed send failed: no wallet connected'' JUndefined]
           | Some k \<Rightarrow>
               if toAddress = [] \<or> amountUi_input = []
               then [SetError (Some ''Enter a destination address and amount.'')]
               else
                 (let parsedAmount = Number_of w amountUi_input in
                  if \<not> isFinite parsedAmount \<or> le_zero parsedAmount
                  then [SetError (Some ''Amount must be a positive number.'')]
                  else
                    [SetLoading True] @
                    catch_finally ''Taxed send error:'' ''Taxed send failed.''
                      ''Taxed send failed: ''
                      (TaxedSendCard3_try w wal networkConfig url k toAddress parsedAmount))))"

section \<open>Reading a run\<close>

text \<open>A network call to the backend.\<close>

fun is_Fetch :: "event \<Rightarrow> bool" where
  "is_Fetch (Fetch url req) = True"
| "is_Fetch ev = False"

text \<open>A call that asks the wallet to sign: \<open>signTransaction\<close>, or \<open>sendTransaction\<close>,
  which signs and broadcasts.\<close>

fun is_sign :: "event \<Rightarrow> bool" where
  "is_sign (SignTransaction tx) = True"
| "is_sign (SendTransaction tx conn) = True"
| "is_sign ev = False"

fun is_confirm :: "event \<Rightarrow> bool" where
  "is_confirm (ConfirmTransaction sg commitment) = True"
| "is_confirm ev = False"

fun is_LogAction :: "event \<Rightarrow> bool" where
  "is_LogAction (LogAction lbl sg) = True"
| "is_LogAction ev = False"

text \<open>
  The terminal report of a run: an error message set, or a signature set. The handlers
  start by resetting both to null, which reports nothing.
\<close>

fun is_terminal :: "event \<Rightarrow> bool" where
  "is_terminal (SetError (Some m)) = True"
| "is_terminal (SetLastSig v) = (v \<noteq> JNull)"
| "is_terminal (SetTxSig v) = (v \<noteq> JNull)"
| "is_terminal ev = False"

text \<open>A success report: the signature state set, or a log entry that carries a signature.\<close>

fun is_success :: "event \<Rightarrow> bool" where
  "is_success (SetLastSig v) = (v \<noteq> JNull)"
| "is_success (SetTxSig v) = (v \<noteq> JNull)"
| "is_success (LogAction lbl v) = (v \<noteq> JUndefined)"
| "is_success ev = False"

text \<open>
  Every success report of the run comes after a confirmation wait; \<open>seen\<close> says whether
  one was made before the events still to read.
\<close>

fun confirmed_before_success :: "bool \<Rightarrow> event list \<Rightarrow> bool" where
  "confirmed_before_success seen [] = True"
| "confirmed_before_success seen (ev # evs) =
     (if is_confirm ev then confirmed_before_success True evs
      else if is_success ev then seen \<and> confirmed_before_success seen evs
      else confirmed_before_success seen evs)"




text \<open>
  A try block with one event of the kind \<open>P\<close> in its run when it completes, and none when
  it throws.
\<close>

definition completes_with_one :: "(event \<Rightarrow> bool) \<Rightarrow> 'a exec \<Rightarrow> bool" where
  "completes_with_one P m =
     (length (filter P (fst m)) = (case snd m of Inl e \<Rightarrow> 0 | Inr x \<Rightarrow> 1))"

text \<open>A parse attempt of either transaction format.\<close>

fun is_parse :: "event \<Rightarrow> bool" where
  "is_parse (DeserializeVersioned bs) = True"
| "is_parse (TransactionFrom bs) = True"
| "is_parse ev = False"

text \<open>The transactions handed to the wallet, in order.\<close>

fun signed_transactions :: "event list \<Rightarrow> Transaction list" where
  "signed_transactions [] = []"
| "signed_transactions (SignTransaction tx # evs) = tx # signed_transactions evs"
| "signed_transactions (SendTransaction tx conn # evs) = tx # signed_transactions evs"
| "signed_transactions (ev # evs) = signed_transactions evs"

text \<open>
  The run hands at most one transaction to the wallet, and that one satisfies \<open>Q\<close>.
\<close>

definition signs_at_most_once :: "(Transaction \<Rightarrow> bool) \<Rightarrow> event list \<Rightarrow> bool" where
  "signs_at_most_once Q tr =
     (case signed_transactions tr of [] \<Rightarrow> True | [tx] \<Rightarrow> Q tx | tx # tx' # txs \<Rightarrow> False)"

section \<open>Test doubles\<close>

text \<open>
  Deterministic stand-ins for the collaborators, for running the handlers on concrete
  inputs: a backend that answers every request with \<open>backend\<close>, a network whose
  confirmation wait ends as \<open>confirm\<close>, a base64 decoder that rejects a character outside
  the alphabet and returns the others as they are, a versioned parser that accepts the
  byte strings that start with 86 (the letter V) and a legacy parser that accepts any
  non-empty byte string.
\<close>

definition base64_alphabet :: string where
  "base64_alphabet = ''ABCDEFGHIJKLMNOPQRSTUVWXYZabcdefghijklmnopqrstuvwxyz0123456789+/=''"

definition test_world :: "(thrown + response) \<Rightarrow> (thrown + unit) \<Rightarrow> world" where
  "test_world backend confirm =
     \<lparr> Number_of = (\<lambda>s. if s = ''0.5'' then Num (1 / 2)
                         else if s = ''0'' then Num 0
                         else if s = ''-1'' then Num (- 1)
                         else if s = ''Infinity'' then PosInfinity
                         else NaN),
       ToString = (\<lambda>v. ''[object Object]''),
       TypeError_message = (\<lambda>v k. ''Cannot read properties of null''),
       fetch = (\<lambda>url req. backend),
       Buffer_from_base64 =
         (\<lambda>v. case v of JStr s \<Rightarrow> Inr (map of_char s)
                | _ \<Rightarrow> Inl (ErrorObj ''The first argument must be of type string'')),
       atob = (\<lambda>s. if list_all (\<lambda>c. c \<in> set base64_alphabet) s then Inr s
                    else Inl (ErrorObj ''InvalidCharacterError'')),
       Transaction_from =
         (\<lambda>bs. if bs = [] then Inl (ErrorObj ''Reached end of buffer unexpectedly'')
               else Inr \<lparr> feePayer = None, message = bs \<rparr>),
       VersionedTransaction_deserialize =
         (\<lambda>bs. case bs of
                 [] \<Rightarrow> Inl (ErrorObj ''Reached end of buffer unexpectedly'')
               | b # rest \<Rightarrow> if b = 86 then Inr (VersionedTransaction bs)
                            else Inl (ErrorObj ''not a versioned message'')),
       serialize = (\<lambda>tx. Inr (message tx)),
       sendRawTransaction = (\<lambda>raw. Inr ''SIG456''),
       confirmTransaction = (\<lambda>sg commitment. confirm),
       new_Connection = (\<lambda>url commitment. Inr (Connection url commitment)) \<rparr>"

definition ok_response :: "jsval \<Rightarrow> thrown + response" where
  "ok_response body = Inr \<lparr> resp_ok = True, resp_status = 200, resp_json = Inr body \<rparr>"

definition test_wallet :: wallet where
  "test_wallet =
     \<lparr> connected = True,
       publicKey = Some (PublicKey ''Wallet1''),
       signTransaction = Some (\<lambda>tx. Inr tx),
       sendTransaction = (\<lambda>tx conn. Inr ''SIG789'') \<rparr>"

definition test_env :: env where
  "test_env = \<lparr> VITE_BACKEND_BASE_URL = None, VITE_SOLANA_CLUSTER = None \<rparr>"

definition test_network :: AksolNetworkConfig where
  "test_network =
     \<lparr> name = devnet, label = ''Devnet (test)'', programId = ''Program1'', mint = ''Mint1'',
       configPda = None, rpcUrl = ''https://api.devnet.solana.com'' \<rparr>"

section \<open>Lemmas on the try-block computations\<close>

lemma andThen_pair:
  "andThen (tr, r) f = (case r of Inl e \<Rightarrow> (tr, Inl e) | Inr x \<Rightarrow> apfst ((@) tr) (f x))"
  by (simp add: andThen_def apfst_def map_prod_def split: sum.splits prod.splits)

lemma try_catch_pair:
  "try_catch (tr, r) h = (case r of Inl e \<Rightarrow> apfst ((@) tr) (h e) | Inr x \<Rightarrow> (tr, Inr x))"
  by (simp add: try_catch_def apfst_def map_prod_def split: sum.splits prod.splits)

lemmas exec_simps = andThen_pair try_catch_pair call_def ret_def throw_def emit_def

lemma fst_andThen:
  "fst (andThen m f) = fst m @ (case snd m of Inl e \<Rightarrow> [] | Inr x \<Rightarrow> fst (f x))"
  by (cases m) (simp add: andThen_def split: sum.splits prod.splits)

lemma snd_andThen:
  "snd (andThen m f) = (case snd m of Inl e \<Rightarrow> Inl e | Inr x \<Rightarrow> snd (f x))"
  by (cases m) (simp add: andThen_def split: sum.splits prod.splits)

text \<open>The copy loop writes the code unit of every character, in order.\<close>

lemma copy_char_codes_gen:
  "length bs = length binary \<Longrightarrow> i \<le> length binary \<Longrightarrow>
   copy_char_codes binary i bs = take i bs @ map of_char (drop i binary)"
proof (induction binary i bs rule: copy_char_codes.induct)
  case (1 binary i bs)
  show ?case
  proof (cases "i < length binary")
    case True
    have "copy_char_codes binary i bs
            = copy_char_codes binary (Suc i) (bs[i := of_char (binary ! i)])"
      using True by (subst copy_char_codes.simps) simp
    also have "\<dots> = take (Suc i) (bs[i := of_char (binary ! i)])
                      @ map of_char (drop (Suc i) binary)"
      using 1 True by simp
    also have "\<dots> = take i bs @ map of_char (drop i binary)"
      using True 1(2) by (simp add: take_Suc_conv_app_nth Cons_nth_drop_Suc[symmetric])
    finally show ?thesis .
  next
    case False
    then show ?thesis using 1(2,3) by (subst copy_char_codes.simps) simp
  qed
qed

lemma copy_char_codes_map:
  "copy_char_codes binary 0 (replicate (length binary) 0) = map of_char binary"
  by (simp add: copy_char_codes_gen)

section \<open>The activity log\<close>

lemma activities_after_snoc:
  "activities_after (calls @ [c]) = take 3 (item_of c # activities_after calls)"
  by (cases c) (simp add: activities_after_def logAction_def)

lemma activities_after_eq: "activities_after calls = take 3 (rev (map item_of calls))"
proof (induction calls rule: rev_induct)
  case Nil
  then show ?case by (simp add: activities_after_def)
next
  case (snoc c calls)
  have "activities_after (calls @ [c]) = take 3 (item_of c # take 3 (rev (map item_of calls)))"
    by (simp only: activities_after_snoc snoc.IH)
  also have "\<dots> = take 3 (item_of c # rev (map item_of calls))"
    by (simp add: take_Cons' min_def)
  finally show ?case by simp
qed

text \<open>
  Claim C8. The activity log never holds more than 3 records and is ordered newest
  first: a call of \<open>logAction\<close> puts the new record at the front and keeps the two newest
  of the records it found, so the oldest is dropped without notice once there are three;
  after any sequence of calls, starting from the empty log, the log is the (at most)
  three most recent records, the newest at the head. \<open>logAction\<close> is the only operation
  on the log: \<open>activities_after\<close> is every state the log can be in.
\<close>

theorem activity_log_capacity_newest_first:
  "logAction date_now random_suffix iso_now lbl sg prev
     = new_item date_now random_suffix iso_now lbl sg # take 2 prev
   \<and> length (logAction date_now random_suffix iso_now lbl sg prev) \<le> 3
   \<and> length (activities_after calls) \<le> 3
   \<and> activities_after calls = take 3 (rev (map item_of calls))"
proof -
  have "take 3 (x # xs) = x # take 2 xs" for x :: ActivityItem and xs
    by (simp add: take_Cons')
  then show ?thesis
    by (simp add: logAction_def activities_after_eq)
qed

text \<open>Four appends: the first record is gone, the other three are there, newest first.\<close>

theorem activity_log_capacity_newest_first_witness:
  "activities_after
     [(1, ''a'', ''t1'', ''first'', JUndefined), (2, ''b'', ''t2'', ''second'', JStr ''SIG123''),
      (3, ''c'', ''t3'', ''third'', JUndefined), (4, ''d'', ''t4'', ''fourth'', JUndefined)]
   = [new_item 4 ''d'' ''t4'' ''fourth'' JUndefined, new_item 3 ''c'' ''t3'' ''third'' JUndefined,
      new_item 2 ''b'' ''t2'' ''second'' (JStr ''SIG123'')]"
  using activity_log_capacity_newest_first
    [of 0 "[]" "[]" "[]" JUndefined "[]"
        "[(1, ''a'', ''t1'', ''first'', JUndefined), (2, ''b'', ''t2'', ''second'', JStr ''SIG123''),
          (3, ''c'', ''t3'', ''third'', JUndefined), (4, ''d'', ''t4'', ''fourth'', JUndefined)]"]
  by simp

section \<open>Lemmas on the handlers\<close>

lemma fst_simple [simp]:
  "fst (ret x) = []" "fst (throw e) = []" "fst (emit ev) = [ev]" "fst (call ev r) = [ev]"
  by (simp_all add: exec_simps)

lemma snd_simple [simp]:
  "snd (ret x) = Inr x" "snd (throw e) = Inl e" "snd (emit ev) = Inr ()" "snd (call ev r) = r"
  by (simp_all add: exec_simps)

lemma fst_reading [simp]: "fst (reading w v k) = []"
  by (simp add: reading_def)

lemma filter_catch_finally:
  "filter P (catch_finally c fb p body) =
     filter P (fst body) @
     (case snd body of
        Inr u \<Rightarrow> filter P [SetLoading False]
      | Inl err \<Rightarrow> filter P [ConsoleError c, SetError (Some (error_message fb err)),
                            LogAction (p @ error_message fb err) JUndefined, SetLoading False])"
  by (cases body) (simp add: catch_finally_def split: sum.splits)

lemma post_json_cases:
  "post_json w url req =
     (case fetch w url req of
        Inl e \<Rightarrow> ([Fetch url req], Inl e)
      | Inr resp \<Rightarrow>
          if resp_ok resp then ([Fetch url req, ReadJson], resp_json resp)
          else ([Fetch url req], Inl (ErrorObj (''Backend HTTP '' @ string_of_nat (resp_status resp)))))"
  by (simp add: post_json_def exec_simps split: sum.splits)

lemma post_json_ok:
  "fetch w url req = Inr resp \<Longrightarrow> resp_ok resp
   \<Longrightarrow> post_json w url req = ([Fetch url req, ReadJson], resp_json resp)"
  by (simp add: post_json_cases)

lemma fst_post_json:
  "fst (post_json w url req) = [Fetch url req] \<or> fst (post_json w url req) = [Fetch url req, ReadJson]"
  by (simp add: post_json_cases split: sum.splits)

lemma post_json_no_log [simp]: "filter is_LogAction (fst (post_json w url req)) = []"
  using fst_post_json [of w url req] by auto

lemma post_json_no_terminal [simp]: "filter is_terminal (fst (post_json w url req)) = []"
  using fst_post_json [of w url req] by auto

lemma ssc_no_log [simp]: "filter is_LogAction (fst (sign_send_confirm w pk sign b)) = []"
  by (simp add: sign_send_confirm_def fst_andThen split: sum.splits)

lemma ssc_no_terminal [simp]: "filter is_terminal (fst (sign_send_confirm w pk sign b)) = []"
  by (simp add: sign_send_confirm_def fst_andThen split: sum.splits)

lemma das_no_log [simp]: "filter is_LogAction (fst (decode_and_send w wal n b)) = []"
  by (simp add: decode_and_send_def decodeBase64ToBytes_def fst_andThen split: sum.splits)

lemma das_no_terminal [simp]: "filter is_terminal (fst (decode_and_send w wal n b)) = []"
  by (simp add: decode_and_send_def decodeBase64ToBytes_def fst_andThen split: sum.splits)

lemma truthy_not_JNull: "truthy v \<Longrightarrow> v \<noteq> JNull"
  by auto

lemma truthy_js_or: "truthy (js_or a b) = (truthy a \<or> truthy b)"
  by (simp add: js_or_def)

lemma field_nullish: "nullish data \<Longrightarrow> field data k = JUndefined"
  by (cases data) simp_all

lemma truthy_not_nullish: "truthy (field data k) \<Longrightarrow> \<not> nullish data"
  by (cases data) auto

lemma signature_of4_not_nullish: "truthy (signature_of4 data) \<Longrightarrow> \<not> nullish data"
  by (auto simp: signature_of4_def truthy_js_or field_nullish)

lemma signature_of3_not_nullish: "truthy (signature_of3 data) \<Longrightarrow> \<not> nullish data"
  by (auto simp: signature_of3_def truthy_js_or field_nullish)

lemma base64Tx_of_not_nullish: "truthy (base64Tx_of data) \<Longrightarrow> \<not> nullish data"
  by (auto simp: base64Tx_of_def truthy_js_or field_nullish)

text \<open>Test doubles unfold to their record of functions.\<close>

lemmas test_doubles =
  test_world_def ok_response_def test_wallet_def test_env_def test_network_def base64_alphabet_def

subsection \<open>One report per completed try block\<close>

lemma cwo_andThen:
  "filter P (fst m) = [] \<Longrightarrow> (\<And>x. snd m = Inr x \<Longrightarrow> completes_with_one P (f x))
   \<Longrightarrow> completes_with_one P (andThen m f)"
  by (cases "snd m") (simp_all add: completes_with_one_def fst_andThen snd_andThen)

lemma cwo_throw: "completes_with_one P (throw e)"
  by (simp add: completes_with_one_def)

lemma cwo_if:
  "(c \<Longrightarrow> completes_with_one P a) \<Longrightarrow> (\<not> c \<Longrightarrow> completes_with_one P b)
   \<Longrightarrow> completes_with_one P (if c then a else b)"
  by simp

lemma cwo_emit2:
  "(P ev1 \<and> \<not> P ev2) \<or> (\<not> P ev1 \<and> P ev2)
   \<Longrightarrow> completes_with_one P (andThen (emit ev1) (\<lambda>u. emit ev2))"
  by (auto simp: completes_with_one_def fst_andThen snd_andThen)

lemmas cwo_intros = cwo_emit2 cwo_andThen cwo_if cwo_throw

lemma TaxedSendCard3_signature_quiet_log [simp]:
  "filter is_LogAction (fst (TaxedSendCard3_signature w wal n data)) = []"
  by (simp add: TaxedSendCard3_signature_def fst_andThen split: sum.splits)

lemma TaxedSendCard3_signature_quiet_terminal [simp]:
  "filter is_terminal (fst (TaxedSendCard3_signature w wal n data)) = []"
  by (simp add: TaxedSendCard3_signature_def fst_andThen split: sum.splits)

lemma TaxedSendCard3_signature_not_null:
  "snd (TaxedSendCard3_signature w wal n data) = Inr x \<Longrightarrow> x \<noteq> JNull"
  by (auto simp: TaxedSendCard3_signature_def snd_andThen split: if_splits sum.splits)

lemma PurchaseCard_try_terminal:
  "completes_with_one is_terminal (PurchaseCard_try w e pk sign a)"
  unfolding PurchaseCard_try_def by (intro cwo_intros) simp_all

lemma PurchaseCard_try_log:
  "completes_with_one is_LogAction (PurchaseCard_try w e pk sign a)"
  unfolding PurchaseCard_try_def by (intro cwo_intros) simp_all

lemma TaxedSendCard_try_terminal:
  "completes_with_one is_terminal (TaxedSendCard_try w e pk sign t a)"
  unfolding TaxedSendCard_try_def by (intro cwo_intros) simp_all

lemma TaxedSendCard_try_log:
  "completes_with_one is_LogAction (TaxedSendCard_try w e pk sign t a)"
  unfolding TaxedSendCard_try_def by (intro cwo_intros) simp_all

lemma TaxedSendCard2_try_terminal:
  "completes_with_one is_terminal (TaxedSendCard2_try w e isMainnet pk sign t a)"
  unfolding TaxedSendCard2_try_def by (intro cwo_intros) (simp_all add: truthy_not_JNull)

lemma TaxedSendCard2_try_log:
  "completes_with_one is_LogAction (TaxedSendCard2_try w e isMainnet pk sign t a)"
  unfolding TaxedSendCard2_try_def by (intro cwo_intros) simp_all

lemma TaxedSendCard3_try_terminal:
  "completes_with_one is_terminal (TaxedSendCard3_try w wal n url k t a)"
  unfolding TaxedSendCard3_try_def
  by (intro cwo_intros) (simp_all add: TaxedSendCard3_signature_not_null)

lemma TaxedSendCard3_try_log:
  "completes_with_one is_LogAction (TaxedSendCard3_try w wal n url k t a)"
  unfolding TaxedSendCard3_try_def by (intro cwo_intros) simp_all

lemma catch_finally_one_terminal:
  "completes_with_one is_terminal body
   \<Longrightarrow> length (filter is_terminal (catch_finally c fb p body)) = 1"
  by (cases body) (simp add: completes_with_one_def catch_finally_def split: sum.splits)

lemma catch_finally_one_log:
  "completes_with_one is_LogAction body
   \<Longrightarrow> length (filter is_LogAction (catch_finally c fb p body)) = 1"
  by (cases body) (simp add: completes_with_one_def catch_finally_def split: sum.splits)

lemmas one_report =
  catch_finally_one_terminal catch_finally_one_log
  PurchaseCard_try_terminal PurchaseCard_try_log TaxedSendCard_try_terminal TaxedSendCard_try_log
  TaxedSendCard2_try_terminal TaxedSendCard2_try_log TaxedSendCard3_try_terminal
  TaxedSendCard3_try_log

lemma PurchaseCard_reports:
  "length (filter is_terminal (PurchaseCard_handleSubmit w e wal amount)) = 1
   \<and> length (filter is_LogAction (PurchaseCard_handleSubmit w e wal amount))
       = (if connected wal \<and> publicKey wal \<noteq> None \<and> signTransaction wal \<noteq> None
             \<and> (\<not> isFinite (Number_of w amount) \<or> le_zero (Number_of w amount))
          then 0 else 1)"
  by (simp add: PurchaseCard_handleSubmit_def Let_def one_report split: option.splits)

lemma TaxedSendCard_reports:
  "length (filter is_terminal (TaxedSendCard_handleSubmit w e wal toAddress amount)) = 1
   \<and> length (filter is_LogAction (TaxedSendCard_handleSubmit w e wal toAddress amount))
       = (if connected wal \<and> publicKey wal \<noteq> None \<and> signTransaction wal \<noteq> None
             \<and> (trim toAddress = []
                  \<or> \<not> isFinite (Number_of w amount) \<or> le_zero (Number_of w amount))
          then 0 else 1)"
  by (simp add: TaxedSendCard_handleSubmit_def Let_def one_report split: option.splits)

lemma TaxedSendCard2_reports:
  "length (filter is_terminal (TaxedSendCard2_handleSubmit w e isMainnet wal toAddress amount)) = 1
   \<and> length (filter is_LogAction (TaxedSendCard2_handleSubmit w e isMainnet wal toAddress amount))
       = (if connected wal \<and> publicKey wal \<noteq> None \<and> signTransaction wal \<noteq> None
             \<and> (\<not> isFinite (Number_of w amount) \<or> le_zero (Number_of w amount)
                  \<or> toAddress = [] \<or> length (trim toAddress) < 8)
          then 0 else 1)"
  by (simp add: TaxedSendCard2_handleSubmit_def Let_def one_report split: option.splits)

lemma TaxedSendCard3_reports:
  "length (filter is_terminal
      (TaxedSendCard3_handleSubmit w wal n backendBaseUrl walletPublicKey toAddress amount)) = 1
   \<and> length (filter is_LogAction
      (TaxedSendCard3_handleSubmit w wal n backendBaseUrl walletPublicKey toAddress amount))
       = (if backendBaseUrl \<noteq> None \<and> backendBaseUrl \<noteq> Some []
             \<and> walletPublicKey \<noteq> None \<and> walletPublicKey \<noteq> Some []
             \<and> (toAddress = [] \<or> amount = []
                  \<or> \<not> isFinite (Number_of w amount) \<or> le_zero (Number_of w amount))
          then 0 else 1)"
  by (simp add: TaxedSendCard3_handleSubmit_def Let_def one_report split: option.splits)

subsection \<open>The fast path and the confirmation wait\<close>

lemma TaxedSendCard2_try_broadcasted:
  assumes "\<And>url req. fetch w url req = Inr resp" "resp_ok resp" "resp_json resp = Inr data"
    "truthy (signature_of4 data)"
  shows "TaxedSendCard2_try w e isMainnet pk sign toAddress a =
    ([Fetch (env_or (VITE_BACKEND_BASE_URL e) ''http://localhost:8080'' @ ''/aksol/send-taxed-tx'')
        \<lparr> fromPubkey = toBase58 pk, toPubkey = Some (trim toAddress), amountUi = a,
          cluster = (if isMainnet then ''mainnet-beta'' else ''devnet'') \<rparr>,
      ReadJson, ConsoleLog ''Backend /aksol/send-taxed-tx response:'',
      SetTxSig (signature_of4 data),
      LogAction (''Taxed send ('' @ modeLabel isMainnet @ '')'') (signature_of4 data)], Inr ())"
  using assms(4) signature_of4_not_nullish [OF assms(4)]
  by (simp add: TaxedSendCard2_try_def post_json_ok [OF assms(1,2)] assms(3) reading_def exec_simps)

lemma TaxedSendCard3_try_broadcasted:
  assumes "\<And>url req. fetch w url req = Inr resp" "resp_ok resp" "resp_json resp = Inr data"
    "truthy (signature_of3 data)"
  shows "TaxedSendCard3_try w wal n url k toAddress a =
    ([Fetch (url @ ''/aksol/send-taxed-tx'')
        \<lparr> fromPubkey = k, toPubkey = Some toAddress, amountUi = a,
          cluster = network_name (name n) \<rparr>,
      ReadJson, ConsoleLog ''Backend /aksol/send-taxed-tx response:'',
      SetTxSig (signature_of3 data),
      LogAction (''Taxed send ('' @ modeLabel (name n = mainnet_beta) @ '')'') (signature_of3 data)],
     Inr ())"
  using assms(4) signature_of3_not_nullish [OF assms(4)]
  by (simp add: TaxedSendCard3_try_def TaxedSendCard3_signature_def post_json_ok [OF assms(1,2)]
      assms(3) reading_def exec_simps)




subsection \<open>Guards and response shapes\<close>

lemma PurchaseCard_invalid_amount:
  assumes "\<not> isFinite (Number_of w amount) \<or> le_zero (Number_of w amount)"
  shows "filter is_Fetch (PurchaseCard_handleSubmit w e wal amount) = []
     \<and> (\<exists>m \<in> {''Connect a wallet before using the 0% route.'',
                 ''Current wallet does not support transaction signing.'',
                 ''Amount must be a positive number.''}.
           filter is_terminal (PurchaseCard_handleSubmit w e wal amount) = [SetError (Some m)])"
proof -
  have c: "(\<not> isFinite (Number_of w amount) \<or> le_zero (Number_of w amount)) = True"
    using assms by simp
  show ?thesis
    unfolding PurchaseCard_handleSubmit_def Let_def c
    by (simp split: option.splits)
qed

lemma TaxedSendCard_invalid_amount:
  assumes "\<not> isFinite (Number_of w amount) \<or> le_zero (Number_of w amount)"
  shows "filter is_Fetch (TaxedSendCard_handleSubmit w e wal toAddress amount) = []
     \<and> (\<exists>m \<in> {''Connect a wallet before sending with tax.'',
                 ''Current wallet does not support transaction signing.'',
                 ''Please enter a recipient address.'',
                 ''Amount must be a positive number.''}.
           filter is_terminal (TaxedSendCard_handleSubmit w e wal toAddress amount)
             = [SetError (Some m)])"
proof -
  have c: "(\<not> isFinite (Number_of w amount) \<or> le_zero (Number_of w amount)) = True"
    using assms by simp
  show ?thesis
    unfolding TaxedSendCard_handleSubmit_def Let_def c
    by (simp split: option.splits)
qed

lemma TaxedSendCard2_invalid_amount:
  assumes "\<not> isFinite (Number_of w amount) \<or> le_zero (Number_of w amount)"
  shows "filter is_Fetch (TaxedSendCard2_handleSubmit w e isMainnet wal toAddress amount) = []
     \<and> (\<exists>m \<in> {''Connect a wallet before sending with tax.'',
                 ''Current wallet does not support transaction signing.'',
                 ''Amount must be a positive number.''}.
           filter is_terminal (TaxedSendCard2_handleSubmit w e isMainnet wal toAddress amount)
             = [SetError (Some m)])"
proof -
  have c: "(\<not> isFinite (Number_of w amount) \<or> le_zero (Number_of w amount)) = True"
    using assms by simp
  show ?thesis
    unfolding TaxedSendCard2_handleSubmit_def Let_def c
    by (simp split: option.splits)
qed

lemma TaxedSendCard3_invalid_amount:
  assumes "\<not> isFinite (Number_of w amount) \<or> le_zero (Number_of w amount)"
  shows "filter is_Fetch
          (TaxedSendCard3_handleSubmit w wal n backendBaseUrl walletPublicKey toAddress amount) = []
     \<and> (\<exists>m \<in> {''Backend URL is not configured.'',
                 ''Connect a wallet before using the taxed send route.'',
                 ''Enter a destination address and amount.'',
                 ''Amount must be a positive number.''}.
           filter is_terminal
             (TaxedSendCard3_handleSubmit w wal n backendBaseUrl walletPublicKey toAddress amount)
             = [SetError (Some m)])"
proof -
  have c: "(\<not> isFinite (Number_of w amount) \<or> le_zero (Number_of w amount)) = True"
    using assms by simp
  show ?thesis
    unfolding TaxedSendCard3_handleSubmit_def Let_def c
    by (simp split: option.splits)
qed

lemma TaxedSendCard2_broadcasted_no_sign:
  assumes "\<And>url req. fetch w url req = Inr resp" "resp_json resp = Inr data"
    "truthy (field data ''signature'')"
  shows "filter is_sign (TaxedSendCard2_handleSubmit w e isMainnet wal toAddress amount) = []"
proof -
  have s: "truthy (signature_of4 data)"
    using assms(3) by (simp add: signature_of4_def truthy_js_or)
  have n: "\<not> nullish data" using assms(3) by (rule truthy_not_nullish)
  have "filter is_sign (fst (TaxedSendCard2_try w e isMainnet pk sign toAddress a)) = []" for pk sign a
    by (simp add: TaxedSendCard2_try_def post_json_cases assms(1,2) s n reading_def exec_simps)
  then show ?thesis
    by (simp add: TaxedSendCard2_handleSubmit_def Let_def filter_catch_finally
        split: option.splits sum.splits)
qed

lemma TaxedSendCard3_broadcasted_no_sign:
  assumes "\<And>url req. fetch w url req = Inr resp" "resp_json resp = Inr data"
    "truthy (field data ''signature'')"
  shows "filter is_sign (TaxedSendCard3_handleSubmit w wal n backendBaseUrl
           walletPublicKey toAddress amount) = []"
proof -
  have s: "truthy (signature_of3 data)"
    using assms(3) by (simp add: signature_of3_def truthy_js_or)
  have n: "\<not> nullish data" using assms(3) by (rule truthy_not_nullish)
  have "filter is_sign (fst (TaxedSendCard3_try w wal n url k toAddress a)) = []" for url k a
    by (simp add: TaxedSendCard3_try_def TaxedSendCard3_signature_def post_json_cases assms(1,2)
        s n reading_def exec_simps)
  then show ?thesis
    by (simp add: TaxedSendCard3_handleSubmit_def Let_def filter_catch_finally
        split: option.splits sum.splits)
qed

lemma PurchaseCard_no_transaction_no_sign:
  assumes "\<And>url req. fetch w url req = Inr resp" "resp_json resp = Inr data"
    "\<not> truthy (field data ''transaction'')"
  shows "filter is_sign (PurchaseCard_handleSubmit w e wal amount) = []"
proof -
  have "filter is_sign (fst (PurchaseCard_try w e pk sign a)) = []" for pk sign a
    by (simp add: PurchaseCard_try_def post_json_cases assms reading_def exec_simps)
  then show ?thesis
    by (simp add: PurchaseCard_handleSubmit_def Let_def filter_catch_finally
        split: option.splits sum.splits)
qed

lemma TaxedSendCard_no_transaction_no_sign:
  assumes "\<And>url req. fetch w url req = Inr resp" "resp_json resp = Inr data"
    "\<not> truthy (field data ''transaction'')"
  shows "filter is_sign (TaxedSendCard_handleSubmit w e wal toAddress amount) = []"
proof -
  have "filter is_sign (fst (TaxedSendCard_try w e pk sign t a)) = []" for pk sign t a
    by (simp add: TaxedSendCard_try_def post_json_cases assms reading_def exec_simps)
  then show ?thesis
    by (simp add: TaxedSendCard_handleSubmit_def Let_def filter_catch_finally
        split: option.splits sum.splits)
qed

subsection \<open>What the wallet is asked to sign\<close>

lemma signed_transactions_append:
  "signed_transactions (xs @ ys) = signed_transactions xs @ signed_transactions ys"
  by (induction xs rule: signed_transactions.induct) simp_all

lemma signed_catch_finally:
  "signed_transactions (catch_finally c fb p body) = signed_transactions (fst body)"
  by (cases body) (simp add: catch_finally_def signed_transactions_append split: sum.splits)

lemma post_json_signs_nothing [simp]: "signed_transactions (fst (post_json w url req)) = []"
  using fst_post_json [of w url req] by auto

lemma sao_nil [simp]: "signs_at_most_once Q []"
  by (simp add: signs_at_most_once_def)

lemma sao_quiet_andThen:
  "signed_transactions (fst m) = []
   \<Longrightarrow> (\<And>x. snd m = Inr x \<Longrightarrow> signs_at_most_once Q (fst (f x)))
   \<Longrightarrow> signs_at_most_once Q (fst (andThen m f))"
  by (cases "snd m") (simp_all add: signs_at_most_once_def fst_andThen signed_transactions_append)

lemma sao_andThen_quiet:
  "signs_at_most_once Q (fst m) \<Longrightarrow> (\<And>x. signed_transactions (fst (f x)) = [])
   \<Longrightarrow> signs_at_most_once Q (fst (andThen m f))"
  by (cases "snd m") (simp_all add: signs_at_most_once_def fst_andThen signed_transactions_append)

lemma sao_if:
  "(c \<Longrightarrow> signs_at_most_once Q (fst a)) \<Longrightarrow> (\<not> c \<Longrightarrow> signs_at_most_once Q (fst b))
   \<Longrightarrow> signs_at_most_once Q (fst (if c then a else b))"
  by simp

lemma sao_ssc:
  "signs_at_most_once
     (\<lambda>tx. \<exists>buf tx0. Transaction_from w buf = Inr tx0 \<and> tx = tx0\<lparr>feePayer := Some pk\<rparr>)
     (fst (sign_send_confirm w pk sign b))"
  by (auto simp add: sign_send_confirm_def exec_simps signs_at_most_once_def split: sum.splits)

lemma sao_das:
  "signs_at_most_once (\<lambda>tx. \<exists>rawTx. Transaction_from w rawTx = Inr tx)
     (fst (decode_and_send w wal n b))"
  by (auto simp add: decode_and_send_def decodeBase64ToBytes_def exec_simps signs_at_most_once_def
      split: sum.splits)

lemma sao_ssc_then:
  "(\<And>x. signed_transactions (fst (f x)) = [])
   \<Longrightarrow> signs_at_most_once
     (\<lambda>tx. \<exists>buf tx0. Transaction_from w buf = Inr tx0 \<and> tx = tx0\<lparr>feePayer := Some pk\<rparr>)
     (fst (andThen (sign_send_confirm w pk sign b) f))"
  by (rule sao_andThen_quiet [OF sao_ssc])

lemma sao_das_then:
  "(\<And>x. signed_transactions (fst (f x)) = [])
   \<Longrightarrow> signs_at_most_once (\<lambda>tx. \<exists>rawTx. Transaction_from w rawTx = Inr tx)
     (fst (andThen (decode_and_send w wal n b) f))"
  by (rule sao_andThen_quiet [OF sao_das])

lemma sao_signature3:
  "signs_at_most_once (\<lambda>tx. \<exists>rawTx. Transaction_from w rawTx = Inr tx)
     (fst (TaxedSendCard3_signature w wal n data))"
  unfolding TaxedSendCard3_signature_def by (intro sao_if sao_das_then) simp_all

lemma sao_signature3_then:
  "(\<And>x. signed_transactions (fst (f x)) = [])
   \<Longrightarrow> signs_at_most_once (\<lambda>tx. \<exists>rawTx. Transaction_from w rawTx = Inr tx)
     (fst (andThen (TaxedSendCard3_signature w wal n data) f))"
  by (rule sao_andThen_quiet [OF sao_signature3])

lemmas sao_intros = sao_ssc_then sao_das_then sao_signature3_then sao_quiet_andThen sao_if

lemma fst_emit_emit [simp]: "fst (andThen (emit ev1) (\<lambda>u. emit ev2)) = [ev1, ev2]"
  by (simp add: exec_simps)

lemma PurchaseCard_try_signs:
  "signs_at_most_once
     (\<lambda>tx. \<exists>buf tx0. Transaction_from w buf = Inr tx0 \<and> tx = tx0\<lparr>feePayer := Some pk\<rparr>)
     (fst (PurchaseCard_try w e pk sign a))"
  unfolding PurchaseCard_try_def by (intro sao_intros) (simp_all add: signs_at_most_once_def)

lemma TaxedSendCard_try_signs:
  "signs_at_most_once
     (\<lambda>tx. \<exists>buf tx0. Transaction_from w buf = Inr tx0 \<and> tx = tx0\<lparr>feePayer := Some pk\<rparr>)
     (fst (TaxedSendCard_try w e pk sign t a))"
  unfolding TaxedSendCard_try_def by (intro sao_intros) (simp_all add: signs_at_most_once_def)

lemma TaxedSendCard2_try_signs:
  "signs_at_most_once
     (\<lambda>tx. \<exists>buf tx0. Transaction_from w buf = Inr tx0 \<and> tx = tx0\<lparr>feePayer := Some pk\<rparr>)
     (fst (TaxedSendCard2_try w e isMainnet pk sign t a))"
  unfolding TaxedSendCard2_try_def by (intro sao_intros) (simp_all add: signs_at_most_once_def)

lemma TaxedSendCard3_try_signs:
  "signs_at_most_once (\<lambda>tx. \<exists>rawTx. Transaction_from w rawTx = Inr tx)
     (fst (TaxedSendCard3_try w wal n url k t a))"
  unfolding TaxedSendCard3_try_def
  by (intro sao_intros) (simp_all add: signs_at_most_once_def)

lemma sao_catch_finally:
  "signs_at_most_once Q (fst body) \<Longrightarrow> signs_at_most_once Q (catch_finally c fb p body)"
  by (simp add: signs_at_most_once_def signed_catch_finally)

lemma sao_Cons: "signed_transactions [ev] = [] \<Longrightarrow> signs_at_most_once Q evs
  \<Longrightarrow> signs_at_most_once Q (ev # evs)"
  using signed_transactions_append [of "[ev]" evs] by (simp add: signs_at_most_once_def)

subsection \<open>Responses with neither shape, and the start of the slow path\<close>

lemma TaxedSendCard2_try_neither:
  assumes "\<And>url req. fetch w url req = Inr resp" "resp_ok resp" "resp_json resp = Inr data"
    "\<not> truthy (signature_of4 data)" "\<not> truthy (base64Tx_of data)"
  shows "TaxedSendCard2_try w e isMainnet pk sign toAddress a =
    ([Fetch (env_or (VITE_BACKEND_BASE_URL e) ''http://localhost:8080'' @ ''/aksol/send-taxed-tx'')
        \<lparr> fromPubkey = toBase58 pk, toPubkey = Some (trim toAddress), amountUi = a,
          cluster = (if isMainnet then ''mainnet-beta'' else ''devnet'') \<rparr>,
      ReadJson, ConsoleLog ''Backend /aksol/send-taxed-tx response:''],
     Inl (ErrorObj (if nullish data then TypeError_message w data ''signature''
        else ''Backend did not return a signature or transaction. Check console logs for full response.'')))"
  using assms(4,5)
  by (simp add: TaxedSendCard2_try_def post_json_ok [OF assms(1,2)] assms(3) reading_def exec_simps)

lemma TaxedSendCard3_try_neither:
  assumes "\<And>url req. fetch w url req = Inr resp" "resp_ok resp" "resp_json resp = Inr data"
    "\<not> truthy (signature_of3 data)" "\<not> truthy (base64Tx_of data)"
  shows "TaxedSendCard3_try w wal n url k toAddress a =
    ([Fetch (url @ ''/aksol/send-taxed-tx'')
        \<lparr> fromPubkey = k, toPubkey = Some toAddress, amountUi = a,
          cluster = network_name (name n) \<rparr>,
      ReadJson, ConsoleLog ''Backend /aksol/send-taxed-tx response:''],
     Inl (ErrorObj (if nullish data then TypeError_message w data ''signature''
        else ''Backend did not return a signature or transaction. Check server logs.'')))"
  using assms(4,5)
  by (simp add: TaxedSendCard3_try_def TaxedSendCard3_signature_def post_json_ok [OF assms(1,2)]
      assms(3) reading_def exec_simps)

lemma PurchaseCard_try_no_transaction:
  assumes "\<And>url req. fetch w url req = Inr resp" "resp_ok resp" "resp_json resp = Inr data"
    "\<not> truthy (field data ''transaction'')"
  shows "PurchaseCard_try w e pk sign a =
    ([Fetch (env_or (VITE_BACKEND_BASE_URL e) ''http://localhost:8080''
              @ ''/aksol/zero-percent-purchase'')
        \<lparr> fromPubkey = toBase58 pk, toPubkey = None, amountUi = a,
          cluster = env_or (VITE_SOLANA_CLUSTER e) ''devnet'' \<rparr>,
      ReadJson],
     Inl (ErrorObj (if nullish data then TypeError_message w data ''ok''
        else js_String w (js_or (field data ''error'')
               (JStr ''Backend did not return a transaction.'')))))"
  using assms(4)
  by (simp add: PurchaseCard_try_def post_json_ok [OF assms(1,2)] assms(3) reading_def exec_simps)

lemma TaxedSendCard_try_no_transaction:
  assumes "\<And>url req. fetch w url req = Inr resp" "resp_ok resp" "resp_json resp = Inr data"
    "\<not> truthy (field data ''transaction'')"
  shows "TaxedSendCard_try w e pk sign t a =
    ([Fetch (env_or (VITE_BACKEND_BASE_URL e) ''http://localhost:8080'' @ ''/aksol/send-taxed-tx'')
        \<lparr> fromPubkey = toBase58 pk, toPubkey = Some t, amountUi = a,
          cluster = env_or (VITE_SOLANA_CLUSTER e) ''devnet'' \<rparr>,
      ReadJson],
     Inl (ErrorObj (if nullish data then TypeError_message w data ''ok''
        else js_String w (js_or (field data ''error'')
               (JStr ''Backend did not return a transaction.'')))))"
  using assms(4)
  by (simp add: TaxedSendCard_try_def post_json_ok [OF assms(1,2)] assms(3) reading_def exec_simps)

lemma failed_run:
  "snd body = Inl err \<Longrightarrow> filter is_sign (fst body) = [] \<Longrightarrow> filter is_terminal (fst body) = []
   \<Longrightarrow> filter is_LogAction (fst body) = []
   \<Longrightarrow> filter is_sign (catch_finally c fb p body) = []
     \<and> filter is_terminal (catch_finally c fb p body) = [SetError (Some (error_message fb err))]
     \<and> filter is_LogAction (catch_finally c fb p body)
         = [LogAction (p @ error_message fb err) JUndefined]"
  by (simp add: filter_catch_finally)

lemma ssc_starts: "\<exists>rest r. sign_send_confirm w pk sign b = (BufferFrom b # rest, r)"
proof -
  have "\<exists>rest. fst (sign_send_confirm w pk sign b) = BufferFrom b # rest"
    by (simp add: sign_send_confirm_def fst_andThen)
  then show ?thesis by (metis prod.collapse)
qed

lemma das_starts: "\<exists>rest r. decode_and_send w wal n b = (Atob (js_String w b) # rest, r)"
proof -
  have "\<exists>rest. fst (decode_and_send w wal n b) = Atob (js_String w b) # rest"
    by (simp add: decode_and_send_def decodeBase64ToBytes_def fst_andThen)
  then show ?thesis by (metis prod.collapse)
qed

lemma catch_finally_pair:
  "catch_finally c fb p (tr, r) =
     tr @ (case r of
             Inr u \<Rightarrow> [SetLoading False]
           | Inl err \<Rightarrow> [ConsoleError c, SetError (Some (error_message fb err)),
                         LogAction (p @ error_message fb err) JUndefined, SetLoading False])"
  by (simp add: catch_finally_def split: sum.splits)

lemma empty_signature4:
  "field data ''signature'' = JStr [] \<Longrightarrow> \<not> truthy (field data ''txSignature'')
   \<Longrightarrow> \<not> truthy (field data ''transactionSignature'') \<Longrightarrow> \<not> truthy (field data ''sig'')
   \<Longrightarrow> \<not> truthy (signature_of4 data) \<and> \<not> nullish data"
  by (cases data) (simp_all add: signature_of4_def truthy_js_or)

lemma empty_signature3:
  "field data ''signature'' = JStr [] \<Longrightarrow> \<not> truthy (field data ''txSignature'')
   \<Longrightarrow> \<not> truthy (field data ''transactionSignature'')
   \<Longrightarrow> \<not> truthy (signature_of3 data) \<and> \<not> nullish data"
  by (cases data) (simp_all add: signature_of3_def truthy_js_or)

lemma TaxedSendCard2_try_unsigned_starts:
  assumes "\<And>url req. fetch w url req = Inr resp" "resp_ok resp" "resp_json resp = Inr data"
    "\<not> truthy (signature_of4 data)" "truthy (base64Tx_of data)"
  shows "\<exists>rest r. TaxedSendCard2_try w e isMainnet pk sign toAddress a =
    ([Fetch (env_or (VITE_BACKEND_BASE_URL e) ''http://localhost:8080'' @ ''/aksol/send-taxed-tx'')
        \<lparr> fromPubkey = toBase58 pk, toPubkey = Some (trim toAddress), amountUi = a,
          cluster = (if isMainnet then ''mainnet-beta'' else ''devnet'') \<rparr>,
      ReadJson, ConsoleLog ''Backend /aksol/send-taxed-tx response:'',
      BufferFrom (base64Tx_of data)] @ rest, r)"
proof -
  obtain rest r where s: "sign_send_confirm w pk sign (base64Tx_of data)
      = (BufferFrom (base64Tx_of data) # rest, r)"
    using ssc_starts by blast
  show ?thesis
    using assms(4,5) base64Tx_of_not_nullish [OF assms(5)]
    by (cases r)
       (simp_all add: TaxedSendCard2_try_def post_json_ok [OF assms(1,2)] assms(3) reading_def
          exec_simps s)
qed

lemma TaxedSendCard3_try_unsigned_starts:
  assumes "\<And>url req. fetch w url req = Inr resp" "resp_ok resp" "resp_json resp = Inr data"
    "\<not> truthy (signature_of3 data)" "truthy (base64Tx_of data)"
  shows "\<exists>rest r. TaxedSendCard3_try w wal n url k toAddress a =
    ([Fetch (url @ ''/aksol/send-taxed-tx'')
        \<lparr> fromPubkey = k, toPubkey = Some toAddress, amountUi = a,
          cluster = network_name (name n) \<rparr>,
      ReadJson, ConsoleLog ''Backend /aksol/send-taxed-tx response:'',
      Atob (js_String w (base64Tx_of data))] @ rest, r)"
proof -
  obtain rest r where s: "decode_and_send w wal n (base64Tx_of data)
      = (Atob (js_String w (base64Tx_of data)) # rest, r)"
    using das_starts by blast
  show ?thesis
    using assms(4,5) base64Tx_of_not_nullish [OF assms(5)]
    by (cases r)
       (simp_all add: TaxedSendCard3_try_def TaxedSendCard3_signature_def
          post_json_ok [OF assms(1,2)] assms(3) reading_def exec_simps s)
qed

text \<open>Everything a run on a concrete input unfolds to.\<close>

lemmas run_defs =
  PurchaseCard_handleSubmit_def PurchaseCard_try_def TaxedSendCard_handleSubmit_def
  TaxedSendCard_try_def TaxedSendCard2_handleSubmit_def TaxedSendCard2_try_def
  TaxedSendCard3_handleSubmit_def TaxedSendCard3_try_def TaxedSendCard3_signature_def
  decode_and_send_def decodeBase64ToBytes_def copy_char_codes_map sign_send_confirm_def
  post_json_cases reading_def exec_simps catch_finally_def signature_of4_def signature_of3_def
  base64Tx_of_def js_or_def js_String_def env_or_def error_message_def modeLabel_def trim_def
  js_space_def test_doubles

section \<open>The transaction pipeline\<close>

text \<open>
  Claim C1, as amended. When the backend's response is a signature (and no transaction),
  no handler signs, broadcasts or waits for a confirmation. The second and the third
  version of \<open>TaxedSendCard.handleSubmit\<close> read the signature (a truthy value under one of
  the names the handler reads, whatever else the response holds), take it as the terminal
  identifier and report success with it at once. \<open>PurchaseCard.handleSubmit\<close> and the
  first version of \<open>TaxedSendCard.handleSubmit\<close> read only the \<open>transaction\<close> field: a
  response with a signature and no transaction is a failure there, reported with the
  backend's \<open>error\<close> text or \<open>"Backend did not return a transaction."\<close>. The run of
  each of the four handlers is the list below.
\<close>

theorem broadcasted_success_without_confirmation:
  assumes "\<And>url req. fetch w url req = Inr resp" "resp_ok resp" "resp_json resp = Inr data"
    and "isFinite (Number_of w amount)" "\<not> le_zero (Number_of w amount)"
  shows
   "(connected wal \<and> publicKey wal = Some pk \<and> signTransaction wal = Some sign
       \<and> toAddress \<noteq> [] \<and> 8 \<le> length (trim toAddress) \<and> truthy (signature_of4 data)
     \<longrightarrow> TaxedSendCard2_handleSubmit w e isMainnet wal toAddress amount =
         [PreventDefault, SetError None, SetTxSig JNull, SetLoading True,
          Fetch (env_or (VITE_BACKEND_BASE_URL e) ''http://localhost:8080'' @ ''/aksol/send-taxed-tx'')
            \<lparr> fromPubkey = toBase58 pk, toPubkey = Some (trim toAddress),
              amountUi = Number_of w amount,
              cluster = (if isMainnet then ''mainnet-beta'' else ''devnet'') \<rparr>,
          ReadJson, ConsoleLog ''Backend /aksol/send-taxed-tx response:'',
          SetTxSig (signature_of4 data),
          LogAction (''Taxed send ('' @ modeLabel isMainnet @ '')'') (signature_of4 data),
          SetLoading False])
    \<and> (backendBaseUrl = Some url \<and> url \<noteq> [] \<and> walletPublicKey = Some k \<and> k \<noteq> []
       \<and> toAddress \<noteq> [] \<and> amount \<noteq> [] \<and> truthy (signature_of3 data)
     \<longrightarrow> TaxedSendCard3_handleSubmit w wal n backendBaseUrl walletPublicKey toAddress amount =
         [PreventDefault, SetError None, SetTxSig JNull, SetLoading True,
          Fetch (url @ ''/aksol/send-taxed-tx'')
            \<lparr> fromPubkey = k, toPubkey = Some toAddress, amountUi = Number_of w amount,
              cluster = network_name (name n) \<rparr>,
          ReadJson, ConsoleLog ''Backend /aksol/send-taxed-tx response:'',
          SetTxSig (signature_of3 data),
          LogAction (''Taxed send ('' @ modeLabel (name n = mainnet_beta) @ '')'')
            (signature_of3 data),
          SetLoading False])
    \<and> (connected wal \<and> publicKey wal = Some pk \<and> signTransaction wal = Some sign
       \<and> truthy (field data ''signature'') \<and> \<not> truthy (field data ''transaction'')
     \<longrightarrow> PurchaseCard_handleSubmit w e wal amount =
         [PreventDefault, SetError None, SetLastSig JNull, SetLoading True,
          Fetch (env_or (VITE_BACKEND_BASE_URL e) ''http://localhost:8080''
                  @ ''/aksol/zero-percent-purchase'')
            \<lparr> fromPubkey = toBase58 pk, toPubkey = None, amountUi = Number_of w amount,
              cluster = env_or (VITE_SOLANA_CLUSTER e) ''devnet'' \<rparr>,
          ReadJson, ConsoleError ''0% purchase error:'',
          SetError (Some (error_message ''0% purchase failed.''
            (ErrorObj (js_String w (js_or (field data ''error'')
               (JStr ''Backend did not return a transaction.'')))))),
          LogAction (''0% purchase failed: '' @ error_message ''0% purchase failed.''
            (ErrorObj (js_String w (js_or (field data ''error'')
               (JStr ''Backend did not return a transaction.''))))) JUndefined,
          SetLoading False])
    \<and> (connected wal \<and> publicKey wal = Some pk \<and> signTransaction wal = Some sign
       \<and> truthy (field data ''signature'') \<and> \<not> truthy (field data ''transaction'') \<and> trim toAddress \<noteq> []
     \<longrightarrow> TaxedSendCard_handleSubmit w e wal toAddress amount =
         [PreventDefault, SetError None, SetLastSig JNull, SetLoading True,
          Fetch (env_or (VITE_BACKEND_BASE_URL e) ''http://localhost:8080'' @ ''/aksol/send-taxed-tx'')
            \<lparr> fromPubkey = toBase58 pk, toPubkey = Some (trim toAddress),
              amountUi = Number_of w amount,
              cluster = env_or (VITE_SOLANA_CLUSTER e) ''devnet'' \<rparr>,
          ReadJson, ConsoleError ''Taxed send error:'',
          SetError (Some (error_message ''Taxed send failed.''
            (ErrorObj (js_String w (js_or (field data ''error'')
               (JStr ''Backend did not return a transaction.'')))))),
          LogAction (''Taxed send failed: '' @ error_message ''Taxed send failed.''
            (ErrorObj (js_String w (js_or (field data ''error'')
               (JStr ''Backend did not return a transaction.''))))) JUndefined,
          SetLoading False])"
proof (intro conjI impI)
  assume "connected wal \<and> publicKey wal = Some pk \<and> signTransaction wal = Some sign
       \<and> toAddress \<noteq> [] \<and> 8 \<le> length (trim toAddress) \<and> truthy (signature_of4 data)"
  then show "TaxedSendCard2_handleSubmit w e isMainnet wal toAddress amount =
         [PreventDefault, SetError None, SetTxSig JNull, SetLoading True,
          Fetch (env_or (VITE_BACKEND_BASE_URL e) ''http://localhost:8080'' @ ''/aksol/send-taxed-tx'')
            \<lparr> fromPubkey = toBase58 pk, toPubkey = Some (trim toAddress),
              amountUi = Number_of w amount,
              cluster = (if isMainnet then ''mainnet-beta'' else ''devnet'') \<rparr>,
          ReadJson, ConsoleLog ''Backend /aksol/send-taxed-tx response:'',
          SetTxSig (signature_of4 data),
          LogAction (''Taxed send ('' @ modeLabel isMainnet @ '')'') (signature_of4 data),
          SetLoading False]"
    using assms(4,5)
    by (simp add: TaxedSendCard2_handleSubmit_def Let_def catch_finally_def
        TaxedSendCard2_try_broadcasted [OF assms(1,2,3)])
next
  assume "backendBaseUrl = Some url \<and> url \<noteq> [] \<and> walletPublicKey = Some k \<and> k \<noteq> []
       \<and> toAddress \<noteq> [] \<and> amount \<noteq> [] \<and> truthy (signature_of3 data)"
  then show "TaxedSendCard3_handleSubmit w wal n backendBaseUrl walletPublicKey toAddress amount =
         [PreventDefault, SetError None, SetTxSig JNull, SetLoading True,
          Fetch (url @ ''/aksol/send-taxed-tx'')
            \<lparr> fromPubkey = k, toPubkey = Some toAddress, amountUi = Number_of w amount,
              cluster = network_name (name n) \<rparr>,
          ReadJson, ConsoleLog ''Backend /aksol/send-taxed-tx response:'',
          SetTxSig (signature_of3 data),
          LogAction (''Taxed send ('' @ modeLabel (name n = mainnet_beta) @ '')'')
            (signature_of3 data),
          SetLoading False]"
    using assms(4,5)
    by (simp add: TaxedSendCard3_handleSubmit_def Let_def catch_finally_def
        TaxedSendCard3_try_broadcasted [OF assms(1,2,3)])
next
  assume h: "connected wal \<and> publicKey wal = Some pk \<and> signTransaction wal = Some sign
       \<and> truthy (field data ''signature'') \<and> \<not> truthy (field data ''transaction'')"
  have nn: "\<not> nullish data"
    using h truthy_not_nullish [of data "''signature''"] by simp
  show "PurchaseCard_handleSubmit w e wal amount =
         [PreventDefault, SetError None, SetLastSig JNull, SetLoading True,
          Fetch (env_or (VITE_BACKEND_BASE_URL e) ''http://localhost:8080''
                  @ ''/aksol/zero-percent-purchase'')
            \<lparr> fromPubkey = toBase58 pk, toPubkey = None, amountUi = Number_of w amount,
              cluster = env_or (VITE_SOLANA_CLUSTER e) ''devnet'' \<rparr>,
          ReadJson, ConsoleError ''0% purchase error:'',
          SetError (Some (error_message ''0% purchase failed.''
            (ErrorObj (js_String w (js_or (field data ''error'')
               (JStr ''Backend did not return a transaction.'')))))),
          LogAction (''0% purchase failed: '' @ error_message ''0% purchase failed.''
            (ErrorObj (js_String w (js_or (field data ''error'')
               (JStr ''Backend did not return a transaction.''))))) JUndefined,
          SetLoading False]"
    using h nn assms(4,5)
    by (simp add: PurchaseCard_handleSubmit_def Let_def catch_finally_def
        PurchaseCard_try_no_transaction [OF assms(1,2,3)])
next
  assume h: "connected wal \<and> publicKey wal = Some pk \<and> signTransaction wal = Some sign
       \<and> truthy (field data ''signature'') \<and> \<not> truthy (field data ''transaction'') \<and> trim toAddress \<noteq> []"
  have nn: "\<not> nullish data"
    using h truthy_not_nullish [of data "''signature''"] by simp
  show "TaxedSendCard_handleSubmit w e wal toAddress amount =
         [PreventDefault, SetError None, SetLastSig JNull, SetLoading True,
          Fetch (env_or (VITE_BACKEND_BASE_URL e) ''http://localhost:8080'' @ ''/aksol/send-taxed-tx'')
            \<lparr> fromPubkey = toBase58 pk, toPubkey = Some (trim toAddress),
              amountUi = Number_of w amount,
              cluster = env_or (VITE_SOLANA_CLUSTER e) ''devnet'' \<rparr>,
          ReadJson, ConsoleError ''Taxed send error:'',
          SetError (Some (error_message ''Taxed send failed.''
            (ErrorObj (js_String w (js_or (field data ''error'')
               (JStr ''Backend did not return a transaction.'')))))),
          LogAction (''Taxed send failed: '' @ error_message ''Taxed send failed.''
            (ErrorObj (js_String w (js_or (field data ''error'')
               (JStr ''Backend did not return a transaction.''))))) JUndefined,
          SetLoading False]"
    using h nn assms(4,5)
    by (simp add: TaxedSendCard_handleSubmit_def Let_def catch_finally_def
        TaxedSendCard_try_no_transaction [OF assms(1,2,3)])
qed

text \<open>
  The claim as stated asks for a confirmation wait before success is reported. With the
  spec's scenario (backend answers \<open>{ok: true, signature: "SIG123"}\<close>) success is reported
  and no wait was made.
\<close>

theorem broadcasted_success_is_not_confirmed:
  "\<not> confirmed_before_success False
      (TaxedSendCard2_handleSubmit
         (test_world (ok_response (JObj [(''ok'', JBool True), (''signature'', JStr ''SIG123'')]))
            (Inr ()))
         test_env False test_wallet ''Wallet2Address'' ''0.5'')"
  by (simp add: TaxedSendCard2_handleSubmit_def TaxedSendCard2_try_def post_json_cases
      reading_def exec_simps catch_finally_def signature_of4_def js_or_def test_doubles trim_def js_space_def)

text \<open>The four handlers in that scenario.\<close>

theorem broadcasted_success_without_confirmation_witness:
  "TaxedSendCard2_handleSubmit
     (test_world (ok_response (JObj [(''ok'', JBool True), (''signature'', JStr ''SIG123'')]))
        (Inr ()))
     test_env False test_wallet ''Wallet2Address'' ''0.5''
   = [PreventDefault, SetError None, SetTxSig JNull, SetLoading True,
      Fetch ''http://localhost:8080/aksol/send-taxed-tx''
        \<lparr> fromPubkey = ''Wallet1'', toPubkey = Some ''Wallet2Address'', amountUi = Num (1 / 2),
          cluster = ''devnet'' \<rparr>,
      ReadJson, ConsoleLog ''Backend /aksol/send-taxed-tx response:'',
      SetTxSig (JStr ''SIG123''), LogAction ''Taxed send (devnet)'' (JStr ''SIG123''),
      SetLoading False]
   \<and> TaxedSendCard3_handleSubmit
     (test_world (ok_response (JObj [(''ok'', JBool True), (''signature'', JStr ''SIG123'')]))
        (Inr ()))
     test_wallet test_network (Some ''http://localhost:8080'') (Some ''Wallet1'')
     ''Wallet2Address'' ''0.5''
   = [PreventDefault, SetError None, SetTxSig JNull, SetLoading True,
      Fetch ''http://localhost:8080/aksol/send-taxed-tx''
        \<lparr> fromPubkey = ''Wallet1'', toPubkey = Some ''Wallet2Address'', amountUi = Num (1 / 2),
          cluster = ''devnet'' \<rparr>,
      ReadJson, ConsoleLog ''Backend /aksol/send-taxed-tx response:'',
      SetTxSig (JStr ''SIG123''), LogAction ''Taxed send (devnet)'' (JStr ''SIG123''),
      SetLoading False]
   \<and> PurchaseCard_handleSubmit
     (test_world (ok_response (JObj [(''ok'', JBool True), (''signature'', JStr ''SIG123'')]))
        (Inr ()))
     test_env test_wallet ''0.5''
   = [PreventDefault, SetError None, SetLastSig JNull, SetLoading True,
      Fetch ''http://localhost:8080/aksol/zero-percent-purchase''
        \<lparr> fromPubkey = ''Wallet1'', toPubkey = None, amountUi = Num (1 / 2), cluster = ''devnet'' \<rparr>,
      ReadJson, ConsoleError ''0% purchase error:'',
      SetError (Some ''Backend did not return a transaction.''),
      LogAction ''0% purchase failed: Backend did not return a transaction.'' JUndefined,
      SetLoading False]
   \<and> TaxedSendCard_handleSubmit
     (test_world (ok_response (JObj [(''ok'', JBool True), (''signature'', JStr ''SIG123'')]))
        (Inr ()))
     test_env test_wallet ''Wallet2Address'' ''0.5''
   = [PreventDefault, SetError None, SetLastSig JNull, SetLoading True,
      Fetch ''http://localhost:8080/aksol/send-taxed-tx''
        \<lparr> fromPubkey = ''Wallet1'', toPubkey = Some ''Wallet2Address'', amountUi = Num (1 / 2),
          cluster = ''devnet'' \<rparr>,
      ReadJson, ConsoleError ''Taxed send error:'',
      SetError (Some ''Backend did not return a transaction.''),
      LogAction ''Taxed send failed: Backend did not return a transaction.'' JUndefined,
      SetLoading False]"
  using broadcasted_success_without_confirmation
    [where w = "test_world (ok_response (JObj [(''ok'', JBool True), (''signature'', JStr ''SIG123'')]))
        (Inr ())"
       and resp = "\<lparr> resp_ok = True, resp_status = 200,
          resp_json = Inr (JObj [(''ok'', JBool True), (''signature'', JStr ''SIG123'')]) \<rparr>"
       and data = "JObj [(''ok'', JBool True), (''signature'', JStr ''SIG123'')]"
       and amount = "''0.5''" and wal = test_wallet and pk = "PublicKey ''Wallet1''"
       and sign = "\<lambda>tx. Inr tx" and toAddress = "''Wallet2Address''" and e = test_env
       and isMainnet = False and n = test_network
       and backendBaseUrl = "Some ''http://localhost:8080''" and url = "''http://localhost:8080''"
       and walletPublicKey = "Some ''Wallet1''" and k = "''Wallet1''"]
  by (simp add: test_doubles signature_of4_def signature_of3_def js_or_def js_String_def trim_def
      js_space_def modeLabel_def env_or_def error_message_def)

text \<open>
  Claim C2, as amended. Every run of a handler makes exactly one terminal report (an error
  message set, or a signature set). It appends exactly one record to the activity log on
  every path but one: when the wallet guards pass and the form input is then rejected
  (the amount is not a positive finite number, or the recipient is missing or too short),
  the handler sets the error and returns without a call of \<open>logAction\<close>.
\<close>

theorem one_report_and_one_append_unless_input_rejected:
  "length (filter is_terminal (PurchaseCard_handleSubmit w e wal amount)) = 1
   \<and> length (filter is_LogAction (PurchaseCard_handleSubmit w e wal amount))
       = (if connected wal \<and> publicKey wal \<noteq> None \<and> signTransaction wal \<noteq> None
             \<and> (\<not> isFinite (Number_of w amount) \<or> le_zero (Number_of w amount))
          then 0 else 1)
   \<and> length (filter is_terminal (TaxedSendCard_handleSubmit w e wal toAddress amount)) = 1
   \<and> length (filter is_LogAction (TaxedSendCard_handleSubmit w e wal toAddress amount))
       = (if connected wal \<and> publicKey wal \<noteq> None \<and> signTransaction wal \<noteq> None
             \<and> (trim toAddress = []
                  \<or> \<not> isFinite (Number_of w amount) \<or> le_zero (Number_of w amount))
          then 0 else 1)
   \<and> length (filter is_terminal (TaxedSendCard2_handleSubmit w e isMainnet wal toAddress amount)) = 1
   \<and> length (filter is_LogAction (TaxedSendCard2_handleSubmit w e isMainnet wal toAddress amount))
       = (if connected wal \<and> publicKey wal \<noteq> None \<and> signTransaction wal \<noteq> None
             \<and> (\<not> isFinite (Number_of w amount) \<or> le_zero (Number_of w amount)
                  \<or> toAddress = [] \<or> length (trim toAddress) < 8)
          then 0 else 1)
   \<and> length (filter is_terminal
      (TaxedSendCard3_handleSubmit w wal n backendBaseUrl walletPublicKey toAddress amount)) = 1
   \<and> length (filter is_LogAction
      (TaxedSendCard3_handleSubmit w wal n backendBaseUrl walletPublicKey toAddress amount))
       = (if backendBaseUrl \<noteq> None \<and> backendBaseUrl \<noteq> Some []
             \<and> walletPublicKey \<noteq> None \<and> walletPublicKey \<noteq> Some []
             \<and> (toAddress = [] \<or> amount = []
                  \<or> \<not> isFinite (Number_of w amount) \<or> le_zero (Number_of w amount))
          then 0 else 1)"
  using PurchaseCard_reports [of w e wal amount] TaxedSendCard_reports [of w e wal toAddress amount]
    TaxedSendCard2_reports [of w e isMainnet wal toAddress amount]
    TaxedSendCard3_reports [of w wal n backendBaseUrl walletPublicKey toAddress amount]
  by blast

text \<open>
  The claim as stated asks for one append on every path. A connected wallet that can sign
  and the amount \<open>"0"\<close>: no append.
\<close>

theorem silent_rejection_appends_nothing:
  "length (filter is_LogAction
     (PurchaseCard_handleSubmit (test_world (ok_response JNull) (Inr ())) test_env test_wallet ''0''))
   \<noteq> 1"
  by (simp add: PurchaseCard_handleSubmit_def test_doubles)

text \<open>
  The four handlers on the amount \<open>"0"\<close> (no append), and on a valid amount with a backend
  that answers \<open>null\<close> (one append, of the failure).
\<close>

theorem one_report_and_one_append_unless_input_rejected_witness:
  "length (filter is_terminal (PurchaseCard_handleSubmit (test_world (ok_response (JNull)) (Inr ())) test_env test_wallet ''0'')) = 1
   \<and> length (filter is_LogAction (PurchaseCard_handleSubmit (test_world (ok_response (JNull)) (Inr ())) test_env test_wallet ''0'')) = 0
   \<and> length (filter is_LogAction (TaxedSendCard_handleSubmit (test_world (ok_response (JNull)) (Inr ())) test_env test_wallet ''Wallet2Address'' ''0'')) = 0
   \<and> length (filter is_LogAction (TaxedSendCard2_handleSubmit (test_world (ok_response (JNull)) (Inr ())) test_env False test_wallet ''Wallet2Address'' ''0'')) = 0
   \<and> length (filter is_LogAction (TaxedSendCard3_handleSubmit (test_world (ok_response (JNull)) (Inr ())) test_wallet test_network (Some ''http://localhost:8080'') (Some ''Wallet1'') ''Wallet2Address'' ''0'')) = 0
   \<and> length (filter is_terminal (PurchaseCard_handleSubmit (test_world (ok_response (JNull)) (Inr ())) test_env test_wallet ''0.5'')) = 1
   \<and> length (filter is_LogAction (PurchaseCard_handleSubmit (test_world (ok_response (JNull)) (Inr ())) test_env test_wallet ''0.5'')) = 1
   \<and> length (filter is_LogAction (TaxedSendCard_handleSubmit (test_world (ok_response (JNull)) (Inr ())) test_env test_wallet ''Wallet2Address'' ''0.5'')) = 1
   \<and> length (filter is_LogAction (TaxedSendCard2_handleSubmit (test_world (ok_response (JNull)) (Inr ())) test_env False test_wallet ''Wallet2Address'' ''0.5'')) = 1
   \<and> length (filter is_LogAction (TaxedSendCard3_handleSubmit (test_world (ok_response (JNull)) (Inr ())) test_wallet test_network (Some ''http://localhost:8080'') (Some ''Wallet1'') ''Wallet2Address'' ''0.5'')) = 1"
  using one_report_and_one_append_unless_input_rejected
          [where w = "test_world (ok_response (JNull)) (Inr ())" and amount = "''0''" and e = test_env and wal = test_wallet
             and toAddress = "''Wallet2Address''" and isMainnet = False and n = test_network
             and backendBaseUrl = "Some ''http://localhost:8080''"
             and walletPublicKey = "Some ''Wallet1''"]
        one_report_and_one_append_unless_input_rejected
          [where w = "test_world (ok_response (JNull)) (Inr ())" and amount = "''0.5''" and e = test_env and wal = test_wallet
             and toAddress = "''Wallet2Address''" and isMainnet = False and n = test_network
             and backendBaseUrl = "Some ''http://localhost:8080''"
             and walletPublicKey = "Some ''Wallet1''"]
  by (simp add: test_doubles trim_def js_space_def)



text \<open>
  Claim C4. When the amount of the intent is not finite or is at most zero, every handler
  ends in a validation failure, reported once with the message of one of its guards, and
  makes no network call.
\<close>

theorem invalid_amount_fails_without_network_call:
  assumes "\<not> isFinite (Number_of w amount) \<or> le_zero (Number_of w amount)"
  shows "filter is_Fetch (PurchaseCard_handleSubmit w e wal amount) = []
     \<and> (\<exists>m \<in> {''Connect a wallet before using the 0% route.'',
                 ''Current wallet does not support transaction signing.'',
                 ''Amount must be a positive number.''}.
           filter is_terminal (PurchaseCard_handleSubmit w e wal amount) = [SetError (Some m)])
     \<and> filter is_Fetch (TaxedSendCard_handleSubmit w e wal toAddress amount) = []
     \<and> (\<exists>m \<in> {''Connect a wallet before sending with tax.'',
                 ''Current wallet does not support transaction signing.'',
                 ''Please enter a recipient address.'',
                 ''Amount must be a positive number.''}.
           filter is_terminal (TaxedSendCard_handleSubmit w e wal toAddress amount)
             = [SetError (Some m)])
     \<and> filter is_Fetch (TaxedSendCard2_handleSubmit w e isMainnet wal toAddress amount) = []
     \<and> (\<exists>m \<in> {''Connect a wallet before sending with tax.'',
                 ''Current wallet does not support transaction signing.'',
                 ''Amount must be a positive number.''}.
           filter is_terminal (TaxedSendCard2_handleSubmit w e isMainnet wal toAddress amount)
             = [SetError (Some m)])
     \<and> filter is_Fetch
          (TaxedSendCard3_handleSubmit w wal n backendBaseUrl walletPublicKey toAddress amount) = []
     \<and> (\<exists>m \<in> {''Backend URL is not configured.'',
                 ''Connect a wallet before using the taxed send route.'',
                 ''Enter a destination address and amount.'',
                 ''Amount must be a positive number.''}.
           filter is_terminal
             (TaxedSendCard3_handleSubmit w wal n backendBaseUrl walletPublicKey toAddress amount)
             = [SetError (Some m)])"
  using PurchaseCard_invalid_amount [OF assms] TaxedSendCard_invalid_amount [OF assms]
    TaxedSendCard2_invalid_amount [OF assms] TaxedSendCard3_invalid_amount [OF assms]
  by (intro conjI) blast+

text \<open>The four handlers on the amount \<open>"-1"\<close>, with a connected wallet that can sign.\<close>

theorem invalid_amount_fails_without_network_call_witness:
  "le_zero (Number_of (test_world (ok_response (JNull)) (Inr ())) ''-1'')
   \<and> filter is_Fetch (PurchaseCard_handleSubmit (test_world (ok_response (JNull)) (Inr ())) test_env test_wallet ''-1'') = []
   \<and> filter is_terminal (PurchaseCard_handleSubmit (test_world (ok_response (JNull)) (Inr ())) test_env test_wallet ''-1'') = [SetError (Some ''Amount must be a positive number.'')]
   \<and> filter is_Fetch (TaxedSendCard_handleSubmit (test_world (ok_response (JNull)) (Inr ())) test_env test_wallet ''Wallet2Address'' ''-1'') = []
   \<and> filter is_terminal (TaxedSendCard_handleSubmit (test_world (ok_response (JNull)) (Inr ())) test_env test_wallet ''Wallet2Address'' ''-1'') = [SetError (Some ''Amount must be a positive number.'')]
   \<and> filter is_Fetch (TaxedSendCard2_handleSubmit (test_world (ok_response (JNull)) (Inr ())) test_env False test_wallet ''Wallet2Address'' ''-1'') = []
   \<and> filter is_terminal (TaxedSendCard2_handleSubmit (test_world (ok_response (JNull)) (Inr ())) test_env False test_wallet ''Wallet2Address'' ''-1'') = [SetError (Some ''Amount must be a positive number.'')]
   \<and> filter is_Fetch (TaxedSendCard3_handleSubmit (test_world (ok_response (JNull)) (Inr ())) test_wallet test_network (Some ''http://localhost:8080'') (Some ''Wallet1'') ''Wallet2Address'' ''-1'') = []
   \<and> filter is_terminal (TaxedSendCard3_handleSubmit (test_world (ok_response (JNull)) (Inr ())) test_wallet test_network (Some ''http://localhost:8080'') (Some ''Wallet1'') ''Wallet2Address'' ''-1'') = [SetError (Some ''Amount must be a positive number.'')]"
  using invalid_amount_fails_without_network_call
    [where w = "test_world (ok_response (JNull)) (Inr ())" and amount = "''-1''" and e = test_env and wal = test_wallet
       and toAddress = "''Wallet2Address''" and isMainnet = False and n = test_network
       and backendBaseUrl = "Some ''http://localhost:8080''"
       and walletPublicKey = "Some ''Wallet1''"]
  by (simp add: test_doubles PurchaseCard_handleSubmit_def TaxedSendCard_handleSubmit_def
      TaxedSendCard2_handleSubmit_def TaxedSendCard3_handleSubmit_def trim_def js_space_def)

text \<open>
  Claim C5. When the backend's response carries a signature, no handler asks the wallet
  to sign: neither \<open>signTransaction\<close> nor \<open>sendTransaction\<close> is called. For the two
  handlers that know the Broadcasted shape this holds for every such response; the two
  that only know the Unsigned shape reject a Broadcasted response (one without a
  transaction) before any signing.
\<close>

theorem broadcasted_response_never_signs:
  assumes "\<And>url req. fetch w url req = Inr resp" "resp_json resp = Inr data"
    "truthy (field data ''signature'')"
  shows "filter is_sign (TaxedSendCard2_handleSubmit w e isMainnet wal toAddress amount) = []
     \<and> filter is_sign (TaxedSendCard3_handleSubmit w wal n backendBaseUrl walletPublicKey
                         toAddress amount) = []
     \<and> (\<not> truthy (field data ''transaction'')
          \<longrightarrow> filter is_sign (PurchaseCard_handleSubmit w e wal amount) = []
            \<and> filter is_sign (TaxedSendCard_handleSubmit w e wal toAddress amount) = [])"
  using TaxedSendCard2_broadcasted_no_sign [OF assms]
    TaxedSendCard3_broadcasted_no_sign [OF assms]
    PurchaseCard_no_transaction_no_sign [OF assms(1,2)]
    TaxedSendCard_no_transaction_no_sign [OF assms(1,2)]
  by blast

text \<open>The four handlers when the backend answers \<open>{ok: true, signature: "SIG123"}\<close>.\<close>

theorem broadcasted_response_never_signs_witness:
  "filter is_sign (TaxedSendCard2_handleSubmit (test_world (ok_response (JObj [(''ok'', JBool True), (''signature'', JStr ''SIG123'')])) (Inr ())) test_env False test_wallet ''Wallet2Address'' ''0.5'') = []
   \<and> filter is_sign (TaxedSendCard3_handleSubmit (test_world (ok_response (JObj [(''ok'', JBool True), (''signature'', JStr ''SIG123'')])) (Inr ())) test_wallet test_network (Some ''http://localhost:8080'') (Some ''Wallet1'') ''Wallet2Address'' ''0.5'') = []
   \<and> filter is_sign (PurchaseCard_handleSubmit (test_world (ok_response (JObj [(''ok'', JBool True), (''signature'', JStr ''SIG123'')])) (Inr ())) test_env test_wallet ''0.5'') = []
   \<and> filter is_sign (TaxedSendCard_handleSubmit (test_world (ok_response (JObj [(''ok'', JBool True), (''signature'', JStr ''SIG123'')])) (Inr ())) test_env test_wallet ''Wallet2Address'' ''0.5'') = []"
  using broadcasted_response_never_signs
    [where w = "test_world (ok_response (JObj [(''ok'', JBool True), (''signature'', JStr ''SIG123'')])) (Inr ())"
       and resp = "\<lparr> resp_ok = True, resp_status = 200, resp_json = Inr (JObj [(''ok'', JBool True), (''signature'', JStr ''SIG123'')]) \<rparr>"
       and data = "JObj [(''ok'', JBool True), (''signature'', JStr ''SIG123'')]"
       and amount = "''0.5''" and wal = test_wallet and toAddress = "''Wallet2Address''"
       and e = test_env and isMainnet = False and n = test_network
       and backendBaseUrl = "Some ''http://localhost:8080''"
       and walletPublicKey = "Some ''Wallet1''"]
  by (simp add: test_doubles)

text \<open>
  Claim C6, as amended. A success response in which none of the fields the handler reads
  for a signature (\<open>signature\<close>, \<open>txSignature\<close>, \<open>transactionSignature\<close>, and \<open>sig\<close> in the
  second version) and none of the fields it reads for a transaction (\<open>transaction\<close>, \<open>tx\<close>,
  \<open>txBase64\<close>, \<open>serializedTx\<close>) holds a truthy value makes the run fail: the wallet is never
  asked to sign, one error is reported (the handler's "did not return" message, or the
  TypeError of reading a \<open>null\<close> body) and one failure record is appended. PurchaseCard and
  the first TaxedSendCard read \<open>transaction\<close> only, and fail in the same way on a response
  without it, with the backend's \<open>error\<close> text when there is one.
\<close>

theorem response_without_signature_or_transaction_fails_unsigned:
  assumes "\<And>url req. fetch w url req = Inr resp" "resp_ok resp" "resp_json resp = Inr data"
    and "isFinite (Number_of w amount)" "\<not> le_zero (Number_of w amount)"
  shows
   "(\<not> truthy (signature_of4 data) \<and> \<not> truthy (base64Tx_of data)
       \<and> connected wal \<and> publicKey wal = Some pk \<and> signTransaction wal = Some sign
       \<and> toAddress \<noteq> [] \<and> 8 \<le> length (trim toAddress)
     \<longrightarrow> filter is_sign (TaxedSendCard2_handleSubmit w e isMainnet wal toAddress amount) = []
       \<and> filter is_terminal (TaxedSendCard2_handleSubmit w e isMainnet wal toAddress amount)
           = [SetError (Some (error_message ''Taxed send failed.''
               (ErrorObj (if nullish data then TypeError_message w data ''signature''
                  else ''Backend did not return a signature or transaction. Check console logs for full response.''))))]
       \<and> filter is_LogAction (TaxedSendCard2_handleSubmit w e isMainnet wal toAddress amount)
           = [LogAction (''Taxed send failed: '' @ error_message ''Taxed send failed.''
               (ErrorObj (if nullish data then TypeError_message w data ''signature''
                  else ''Backend did not return a signature or transaction. Check console logs for full response.'')))
               JUndefined])
    \<and> (\<not> truthy (signature_of3 data) \<and> \<not> truthy (base64Tx_of data)
       \<and> backendBaseUrl = Some url \<and> url \<noteq> [] \<and> walletPublicKey = Some k \<and> k \<noteq> []
       \<and> toAddress \<noteq> [] \<and> amount \<noteq> []
     \<longrightarrow> filter is_sign
           (TaxedSendCard3_handleSubmit w wal n backendBaseUrl walletPublicKey toAddress amount) = []
       \<and> filter is_terminal
           (TaxedSendCard3_handleSubmit w wal n backendBaseUrl walletPublicKey toAddress amount)
           = [SetError (Some (error_message ''Taxed send failed.''
               (ErrorObj (if nullish data then TypeError_message w data ''signature''
                  else ''Backend did not return a signature or transaction. Check server logs.''))))]
       \<and> filter is_LogAction
           (TaxedSendCard3_handleSubmit w wal n backendBaseUrl walletPublicKey toAddress amount)
           = [LogAction (''Taxed send failed: '' @ error_message ''Taxed send failed.''
               (ErrorObj (if nullish data then TypeError_message w data ''signature''
                  else ''Backend did not return a signature or transaction. Check server logs.'')))
               JUndefined])
    \<and> (\<not> truthy (field data ''transaction'')
       \<and> connected wal \<and> publicKey wal = Some pk \<and> signTransaction wal = Some sign
     \<longrightarrow> filter is_sign (PurchaseCard_handleSubmit w e wal amount) = []
       \<and> filter is_terminal (PurchaseCard_handleSubmit w e wal amount)
           = [SetError (Some (error_message ''0% purchase failed.''
               (ErrorObj (if nullish data then TypeError_message w data ''ok''
                  else js_String w (js_or (field data ''error'')
                         (JStr ''Backend did not return a transaction.''))))))]
       \<and> filter is_LogAction (PurchaseCard_handleSubmit w e wal amount)
           = [LogAction (''0% purchase failed: '' @ error_message ''0% purchase failed.''
               (ErrorObj (if nullish data then TypeError_message w data ''ok''
                  else js_String w (js_or (field data ''error'')
                         (JStr ''Backend did not return a transaction.'')))))
               JUndefined])
    \<and> (\<not> truthy (field data ''transaction'')
       \<and> connected wal \<and> publicKey wal = Some pk \<and> signTransaction wal = Some sign
       \<and> trim toAddress \<noteq> []
     \<longrightarrow> filter is_sign (TaxedSendCard_handleSubmit w e wal toAddress amount) = []
       \<and> filter is_terminal (TaxedSendCard_handleSubmit w e wal toAddress amount)
           = [SetError (Some (error_message ''Taxed send failed.''
               (ErrorObj (if nullish data then TypeError_message w data ''ok''
                  else js_String w (js_or (field data ''error'')
                         (JStr ''Backend did not return a transaction.''))))))]
       \<and> filter is_LogAction (TaxedSendCard_handleSubmit w e wal toAddress amount)
           = [LogAction (''Taxed send failed: '' @ error_message ''Taxed send failed.''
               (ErrorObj (if nullish data then TypeError_message w data ''ok''
                  else js_String w (js_or (field data ''error'')
                         (JStr ''Backend did not return a transaction.'')))))
               JUndefined])"
proof (intro conjI impI)
  note v = assms(4,5)
  note r = assms(1-3)
  {
    assume h: "\<not> truthy (signature_of4 data) \<and> \<not> truthy (base64Tx_of data)
       \<and> connected wal \<and> publicKey wal = Some pk \<and> signTransaction wal = Some sign
       \<and> toAddress \<noteq> [] \<and> 8 \<le> length (trim toAddress)"
    have t: "TaxedSendCard2_handleSubmit w e isMainnet wal toAddress amount =
       [PreventDefault, SetError None, SetTxSig JNull, SetLoading True] @
       catch_finally ''Taxed send error:'' ''Taxed send failed.'' ''Taxed send failed: ''
         (TaxedSendCard2_try w e isMainnet pk sign toAddress (Number_of w amount))"
      using h v by (simp add: TaxedSendCard2_handleSubmit_def Let_def)
    note f = failed_run [of "TaxedSendCard2_try w e isMainnet pk sign toAddress (Number_of w amount)"]
    note b = TaxedSendCard2_try_neither [OF r]
    show "filter is_sign (TaxedSendCard2_handleSubmit w e isMainnet wal toAddress amount) = []"
      using h f by (simp add: t b)
    show "filter is_terminal (TaxedSendCard2_handleSubmit w e isMainnet wal toAddress amount)
           = [SetError (Some (error_message ''Taxed send failed.''
               (ErrorObj (if nullish data then TypeError_message w data ''signature''
                  else ''Backend did not return a signature or transaction. Check console logs for full response.''))))]"
      using h f by (simp add: t b)
    show "filter is_LogAction (TaxedSendCard2_handleSubmit w e isMainnet wal toAddress amount)
           = [LogAction (''Taxed send failed: '' @ error_message ''Taxed send failed.''
               (ErrorObj (if nullish data then TypeError_message w data ''signature''
                  else ''Backend did not return a signature or transaction. Check console logs for full response.'')))
               JUndefined]"
      using h f by (simp add: t b)
  }
  {
    assume h: "\<not> truthy (signature_of3 data) \<and> \<not> truthy (base64Tx_of data)
       \<and> backendBaseUrl = Some url \<and> url \<noteq> [] \<and> walletPublicKey = Some k \<and> k \<noteq> []
       \<and> toAddress \<noteq> [] \<and> amount \<noteq> []"
    have eqs: "backendBaseUrl = Some url" "walletPublicKey = Some k"
      using h by simp_all
    have t: "TaxedSendCard3_handleSubmit w wal n (Some url) (Some k) toAddress amount =
       [PreventDefault, SetError None, SetTxSig JNull, SetLoading True] @
       catch_finally ''Taxed send error:'' ''Taxed send failed.'' ''Taxed send failed: ''
         (TaxedSendCard3_try w wal n url k toAddress (Number_of w amount))"
      using h v by (simp add: TaxedSendCard3_handleSubmit_def Let_def)
    note f = failed_run [of "TaxedSendCard3_try w wal n url k toAddress (Number_of w amount)"]
    note b = TaxedSendCard3_try_neither [OF r]
    show "filter is_sign
           (TaxedSendCard3_handleSubmit w wal n backendBaseUrl walletPublicKey toAddress amount) = []"
      unfolding eqs using h f by (simp add: t b)
    show "filter is_terminal
           (TaxedSendCard3_handleSubmit w wal n backendBaseUrl walletPublicKey toAddress amount)
           = [SetError (Some (error_message ''Taxed send failed.''
               (ErrorObj (if nullish data then TypeError_message w data ''signature''
                  else ''Backend did not return a signature or transaction. Check server logs.''))))]"
      unfolding eqs using h f by (simp add: t b)
    show "filter is_LogAction
           (TaxedSendCard3_handleSubmit w wal n backendBaseUrl walletPublicKey toAddress amount)
           = [LogAction (''Taxed send failed: '' @ error_message ''Taxed send failed.''
               (ErrorObj (if nullish data then TypeError_message w data ''signature''
                  else ''Backend did not return a signature or transaction. Check server logs.'')))
               JUndefined]"
      unfolding eqs using h f by (simp add: t b)
  }
  {
    assume h: "\<not> truthy (field data ''transaction'')
       \<and> connected wal \<and> publicKey wal = Some pk \<and> signTransaction wal = Some sign"
    have t: "PurchaseCard_handleSubmit w e wal amount =
       [PreventDefault, SetError None, SetLastSig JNull, SetLoading True] @
       catch_finally ''0% purchase error:'' ''0% purchase failed.'' ''0% purchase failed: ''
         (PurchaseCard_try w e pk sign (Number_of w amount))"
      using h v by (simp add: PurchaseCard_handleSubmit_def Let_def)
    note f = failed_run [of "PurchaseCard_try w e pk sign (Number_of w amount)"]
    note b = PurchaseCard_try_no_transaction [OF r]
    show "filter is_sign (PurchaseCard_handleSubmit w e wal amount) = []"
      using h f by (simp add: t b)
    show "filter is_terminal (PurchaseCard_handleSubmit w e wal amount)
           = [SetError (Some (error_message ''0% purchase failed.''
               (ErrorObj (if nullish data then TypeError_message w data ''ok''
                  else js_String w (js_or (field data ''error'')
                         (JStr ''Backend did not return a transaction.''))))))]"
      using h f by (simp add: t b)
    show "filter is_LogAction (PurchaseCard_handleSubmit w e wal amount)
           = [LogAction (''0% purchase failed: '' @ error_message ''0% purchase failed.''
               (ErrorObj (if nullish data then TypeError_message w data ''ok''
                  else js_String w (js_or (field data ''error'')
                         (JStr ''Backend did not return a transaction.'')))))
               JUndefined]"
      using h f by (simp add: t b)
  }
  {
    assume h: "\<not> truthy (field data ''transaction'')
       \<and> connected wal \<and> publicKey wal = Some pk \<and> signTransaction wal = Some sign
       \<and> trim toAddress \<noteq> []"
    have t: "TaxedSendCard_handleSubmit w e wal toAddress amount =
       [PreventDefault, SetError None, SetLastSig JNull, SetLoading True] @
       catch_finally ''Taxed send error:'' ''Taxed send failed.'' ''Taxed send failed: ''
         (TaxedSendCard_try w e pk sign (trim toAddress) (Number_of w amount))"
      using h v by (simp add: TaxedSendCard_handleSubmit_def Let_def)
    note f = failed_run [of "TaxedSendCard_try w e pk sign (trim toAddress) (Number_of w amount)"]
    note b = TaxedSendCard_try_no_transaction [OF r]
    show "filter is_sign (TaxedSendCard_handleSubmit w e wal toAddress amount) = []"
      using h f by (simp add: t b)
    show "filter is_terminal (TaxedSendCard_handleSubmit w e wal toAddress amount)
           = [SetError (Some (error_message ''Taxed send failed.''
               (ErrorObj (if nullish data then TypeError_message w data ''ok''
                  else js_String w (js_or (field data ''error'')
                         (JStr ''Backend did not return a transaction.''))))))]"
      using h f by (simp add: t b)
    show "filter is_LogAction (TaxedSendCard_handleSubmit w e wal toAddress amount)
           = [LogAction (''Taxed send failed: '' @ error_message ''Taxed send failed.''
               (ErrorObj (if nullish data then TypeError_message w data ''ok''
                  else js_String w (js_or (field data ''error'')
                         (JStr ''Backend did not return a transaction.'')))))
               JUndefined]"
      using h f by (simp add: t b)
  }
qed

text \<open>
  The claim as stated is about the fields \<open>signature\<close> and \<open>transaction\<close>. The response
  \<open>{ok: true, tx: "AAAA"}\<close> has neither, and the second TaxedSendCard decodes \<open>tx\<close>, has it
  signed and reports success.
\<close>

theorem alias_transaction_field_is_signed:
  "filter is_sign
     (TaxedSendCard2_handleSubmit
        (test_world (ok_response (JObj [(''ok'', JBool True), (''tx'', JStr ''AAAA'')])) (Inr ()))
        test_env False test_wallet ''Wallet2Address'' ''0.5'')
     = [SignTransaction \<lparr> feePayer = Some (PublicKey ''Wallet1''), message = [65, 65, 65, 65] \<rparr>]
   \<and> filter is_terminal
     (TaxedSendCard2_handleSubmit
        (test_world (ok_response (JObj [(''ok'', JBool True), (''tx'', JStr ''AAAA'')])) (Inr ()))
        test_env False test_wallet ''Wallet2Address'' ''0.5'')
     = [SetTxSig (JStr ''SIG456'')]"
  by (simp add: TaxedSendCard2_handleSubmit_def TaxedSendCard2_try_def post_json_cases
      reading_def exec_simps catch_finally_def sign_send_confirm_def signature_of4_def
      base64Tx_of_def js_or_def trim_def js_space_def test_doubles)

text \<open>The four handlers on the response \<open>{ok: true}\<close>.\<close>

theorem response_without_signature_or_transaction_fails_unsigned_witness:
  "filter is_sign (TaxedSendCard2_handleSubmit (test_world (ok_response (JObj [(''ok'', JBool True)])) (Inr ())) test_env False test_wallet ''Wallet2Address'' ''0.5'') = []
   \<and> filter is_terminal (TaxedSendCard2_handleSubmit (test_world (ok_response (JObj [(''ok'', JBool True)])) (Inr ())) test_env False test_wallet ''Wallet2Address'' ''0.5'')
     = [SetError (Some
         ''Backend did not return a signature or transaction. Check console logs for full response.'')]
   \<and> filter is_sign (TaxedSendCard3_handleSubmit (test_world (ok_response (JObj [(''ok'', JBool True)])) (Inr ())) test_wallet test_network (Some ''http://localhost:8080'') (Some ''Wallet1'') ''Wallet2Address'' ''0.5'') = []
   \<and> filter is_terminal (TaxedSendCard3_handleSubmit (test_world (ok_response (JObj [(''ok'', JBool True)])) (Inr ())) test_wallet test_network (Some ''http://localhost:8080'') (Some ''Wallet1'') ''Wallet2Address'' ''0.5'')
     = [SetError (Some ''Backend did not return a signature or transaction. Check server logs.'')]
   \<and> filter is_sign (PurchaseCard_handleSubmit (test_world (ok_response (JObj [(''ok'', JBool True)])) (Inr ())) test_env test_wallet ''0.5'') = []
   \<and> filter is_terminal (PurchaseCard_handleSubmit (test_world (ok_response (JObj [(''ok'', JBool True)])) (Inr ())) test_env test_wallet ''0.5'')
     = [SetError (Some ''Backend did not return a transaction.'')]
   \<and> filter is_sign (TaxedSendCard_handleSubmit (test_world (ok_response (JObj [(''ok'', JBool True)])) (Inr ())) test_env test_wallet ''Wallet2Address'' ''0.5'') = []
   \<and> filter is_LogAction (TaxedSendCard_handleSubmit (test_world (ok_response (JObj [(''ok'', JBool True)])) (Inr ())) test_env test_wallet ''Wallet2Address'' ''0.5'')
     = [LogAction ''Taxed send failed: Backend did not return a transaction.'' JUndefined]"
  using response_without_signature_or_transaction_fails_unsigned
    [where w = "test_world (ok_response (JObj [(''ok'', JBool True)])) (Inr ())"
       and resp = "\<lparr> resp_ok = True, resp_status = 200, resp_json = Inr (JObj [(''ok'', JBool True)]) \<rparr>"
       and data = "JObj [(''ok'', JBool True)]"
       and amount = "''0.5''" and wal = test_wallet and pk = "PublicKey ''Wallet1''"
       and sign = "\<lambda>tx. Inr tx" and toAddress = "''Wallet2Address''" and e = test_env
       and isMainnet = False and n = test_network
       and backendBaseUrl = "Some ''http://localhost:8080''" and url = "''http://localhost:8080''"
       and walletPublicKey = "Some ''Wallet1''" and k = "''Wallet1''"]
  by (simp add: test_doubles signature_of4_def signature_of3_def base64Tx_of_def js_or_def
      js_String_def trim_def js_space_def error_message_def)

text \<open>
  Claim C9, as amended. In the three handlers that sign with \<open>wallet.signTransaction\<close>
  (PurchaseCard and the first two versions of TaxedSendCard), the wallet is asked to sign
  at most once, and the transaction it is handed is the one \<open>Transaction.from\<close> decoded,
  with its fee payer set to the wallet's public key. The third version of TaxedSendCard
  hands the decoded transaction to \<open>wallet.sendTransaction\<close> as it was decoded: it does
  not set the fee payer.
\<close>

theorem fee_payer_set_before_signTransaction:
  "signs_at_most_once
     (\<lambda>tx. \<exists>buf tx0. Transaction_from w buf = Inr tx0 \<and> tx = tx0\<lparr>feePayer := publicKey wal\<rparr>)
     (PurchaseCard_handleSubmit w e wal amount)
   \<and> signs_at_most_once
     (\<lambda>tx. \<exists>buf tx0. Transaction_from w buf = Inr tx0 \<and> tx = tx0\<lparr>feePayer := publicKey wal\<rparr>)
     (TaxedSendCard_handleSubmit w e wal toAddress amount)
   \<and> signs_at_most_once
     (\<lambda>tx. \<exists>buf tx0. Transaction_from w buf = Inr tx0 \<and> tx = tx0\<lparr>feePayer := publicKey wal\<rparr>)
     (TaxedSendCard2_handleSubmit w e isMainnet wal toAddress amount)
   \<and> signs_at_most_once (\<lambda>tx. \<exists>rawTx. Transaction_from w rawTx = Inr tx)
     (TaxedSendCard3_handleSubmit w wal n backendBaseUrl walletPublicKey toAddress amount)"
proof (intro conjI)
  show "signs_at_most_once
     (\<lambda>tx. \<exists>buf tx0. Transaction_from w buf = Inr tx0 \<and> tx = tx0\<lparr>feePayer := publicKey wal\<rparr>)
     (PurchaseCard_handleSubmit w e wal amount)"
    using PurchaseCard_try_signs [of w _ e _ "Number_of w amount"]
    by (auto simp: PurchaseCard_handleSubmit_def Let_def intro!: sao_Cons sao_catch_finally
        split: option.splits if_splits)
  show "signs_at_most_once
     (\<lambda>tx. \<exists>buf tx0. Transaction_from w buf = Inr tx0 \<and> tx = tx0\<lparr>feePayer := publicKey wal\<rparr>)
     (TaxedSendCard_handleSubmit w e wal toAddress amount)"
    using TaxedSendCard_try_signs [of w _ e _ "trim toAddress" "Number_of w amount"]
    by (auto simp: TaxedSendCard_handleSubmit_def Let_def intro!: sao_Cons sao_catch_finally
        split: option.splits if_splits)
  show "signs_at_most_once
     (\<lambda>tx. \<exists>buf tx0. Transaction_from w buf = Inr tx0 \<and> tx = tx0\<lparr>feePayer := publicKey wal\<rparr>)
     (TaxedSendCard2_handleSubmit w e isMainnet wal toAddress amount)"
    using TaxedSendCard2_try_signs [of w _ e isMainnet _ toAddress "Number_of w amount"]
    by (auto simp: TaxedSendCard2_handleSubmit_def Let_def intro!: sao_Cons sao_catch_finally
        split: option.splits if_splits)
  show "signs_at_most_once (\<lambda>tx. \<exists>rawTx. Transaction_from w rawTx = Inr tx)
     (TaxedSendCard3_handleSubmit w wal n backendBaseUrl walletPublicKey toAddress amount)"
    using TaxedSendCard3_try_signs [of w wal n _ _ toAddress "Number_of w amount"]
    by (auto simp: TaxedSendCard3_handleSubmit_def Let_def intro!: sao_Cons sao_catch_finally
        split: option.splits if_splits)
qed

text \<open>
  The claim as stated has the fee payer set on every slow path. In the third version of
  TaxedSendCard the transaction handed to the wallet has the fee payer it was decoded
  with (none, here), not the wallet's address.
\<close>

theorem sendTransaction_gets_transaction_as_decoded:
  "signed_transactions
     (TaxedSendCard3_handleSubmit
        (test_world (ok_response (JObj [(''ok'', JBool True), (''transaction'', JStr ''AAAA'')]))
           (Inr ()))
        test_wallet test_network (Some ''http://localhost:8080'') (Some ''Wallet1'')
        ''Wallet2Address'' ''0.5'')
     = [\<lparr> feePayer = None, message = [65, 65, 65, 65] \<rparr>]
   \<and> feePayer \<lparr> feePayer = None, message = [65, 65, 65, 65] \<rparr> \<noteq> Some (PublicKey ''Wallet1'')"
  by (simp add: run_defs)

text \<open>
  The four handlers on the response \<open>{ok: true, transaction: "AAAA"}\<close>: the first three hand
  over a transaction whose fee payer is the wallet, the last one the transaction as decoded.
\<close>

theorem fee_payer_set_before_signTransaction_witness:
  "signed_transactions (PurchaseCard_handleSubmit (test_world (ok_response (JObj [(''ok'', JBool True), (''transaction'', JStr ''AAAA'')])) (Inr ())) test_env test_wallet ''0.5'') = [\<lparr> feePayer = Some (PublicKey ''Wallet1''), message = [65, 65, 65, 65] \<rparr>]
   \<and> signed_transactions (TaxedSendCard_handleSubmit (test_world (ok_response (JObj [(''ok'', JBool True), (''transaction'', JStr ''AAAA'')])) (Inr ())) test_env test_wallet ''Wallet2Address'' ''0.5'') = [\<lparr> feePayer = Some (PublicKey ''Wallet1''), message = [65, 65, 65, 65] \<rparr>]
   \<and> signed_transactions (TaxedSendCard2_handleSubmit (test_world (ok_response (JObj [(''ok'', JBool True), (''transaction'', JStr ''AAAA'')])) (Inr ())) test_env False test_wallet ''Wallet2Address'' ''0.5'') = [\<lparr> feePayer = Some (PublicKey ''Wallet1''), message = [65, 65, 65, 65] \<rparr>]
   \<and> signed_transactions (TaxedSendCard3_handleSubmit (test_world (ok_response (JObj [(''ok'', JBool True), (''transaction'', JStr ''AAAA'')])) (Inr ())) test_wallet test_network (Some ''http://localhost:8080'') (Some ''Wallet1'') ''Wallet2Address'' ''0.5'') = [\<lparr> feePayer = None, message = [65, 65, 65, 65] \<rparr>]"
  using fee_payer_set_before_signTransaction
    [where w = "test_world (ok_response (JObj [(''ok'', JBool True), (''transaction'', JStr ''AAAA'')])) (Inr ())" and e = test_env and wal = test_wallet and amount = "''0.5''"
       and toAddress = "''Wallet2Address''" and isMainnet = False and n = test_network
       and backendBaseUrl = "Some ''http://localhost:8080''"
       and walletPublicKey = "Some ''Wallet1''"]
  by (simp add: run_defs)

text \<open>
  Claim C10, as amended. The response shape is decided by truthiness. When the
  \<open>signature\<close> field is the empty string and no other field the handler reads for a
  signature (\<open>txSignature\<close>, \<open>transactionSignature\<close>, and \<open>sig\<close> in the second version) is
  truthy, the handler does not take the fast path: with a truthy transaction field it
  goes on to decode that transaction, and with none the run fails with the handler's
  "did not return a signature or transaction" message and reports no signature.
\<close>

theorem empty_signature_falls_through_to_transaction:
  assumes "\<And>url req. fetch w url req = Inr resp" "resp_ok resp" "resp_json resp = Inr data"
    and "isFinite (Number_of w amount)" "\<not> le_zero (Number_of w amount)"
    and "field data ''signature'' = JStr []" "\<not> truthy (field data ''txSignature'')"
      "\<not> truthy (field data ''transactionSignature'')"
  shows
   "(connected wal \<and> publicKey wal = Some pk \<and> signTransaction wal = Some sign
       \<and> toAddress \<noteq> [] \<and> 8 \<le> length (trim toAddress) \<and> \<not> truthy (field data ''sig'')
     \<longrightarrow> (if truthy (base64Tx_of data)
          then \<exists>rest. TaxedSendCard2_handleSubmit w e isMainnet wal toAddress amount =
            [PreventDefault, SetError None, SetTxSig JNull, SetLoading True,
             Fetch (env_or (VITE_BACKEND_BASE_URL e) ''http://localhost:8080''
                     @ ''/aksol/send-taxed-tx'')
               \<lparr> fromPubkey = toBase58 pk, toPubkey = Some (trim toAddress),
                 amountUi = Number_of w amount,
                 cluster = (if isMainnet then ''mainnet-beta'' else ''devnet'') \<rparr>,
             ReadJson, ConsoleLog ''Backend /aksol/send-taxed-tx response:'',
             BufferFrom (base64Tx_of data)] @ rest
          else TaxedSendCard2_handleSubmit w e isMainnet wal toAddress amount =
            [PreventDefault, SetError None, SetTxSig JNull, SetLoading True,
             Fetch (env_or (VITE_BACKEND_BASE_URL e) ''http://localhost:8080''
                     @ ''/aksol/send-taxed-tx'')
               \<lparr> fromPubkey = toBase58 pk, toPubkey = Some (trim toAddress),
                 amountUi = Number_of w amount,
                 cluster = (if isMainnet then ''mainnet-beta'' else ''devnet'') \<rparr>,
             ReadJson, ConsoleLog ''Backend /aksol/send-taxed-tx response:'',
             ConsoleError ''Taxed send error:'',
             SetError (Some
               ''Backend did not return a signature or transaction. Check console logs for full response.''),
             LogAction
               ''Taxed send failed: Backend did not return a signature or transaction. Check console logs for full response.''
               JUndefined,
             SetLoading False]))
    \<and> (backendBaseUrl = Some url \<and> url \<noteq> [] \<and> walletPublicKey = Some k \<and> k \<noteq> []
       \<and> toAddress \<noteq> [] \<and> amount \<noteq> []
     \<longrightarrow> (if truthy (base64Tx_of data)
          then \<exists>rest. TaxedSendCard3_handleSubmit w wal n backendBaseUrl walletPublicKey
                         toAddress amount =
            [PreventDefault, SetError None, SetTxSig JNull, SetLoading True,
             Fetch (url @ ''/aksol/send-taxed-tx'')
               \<lparr> fromPubkey = k, toPubkey = Some toAddress, amountUi = Number_of w amount,
                 cluster = network_name (name n) \<rparr>,
             ReadJson, ConsoleLog ''Backend /aksol/send-taxed-tx response:'',
             Atob (js_String w (base64Tx_of data))] @ rest
          else TaxedSendCard3_handleSubmit w wal n backendBaseUrl walletPublicKey toAddress amount =
            [PreventDefault, SetError None, SetTxSig JNull, SetLoading True,
             Fetch (url @ ''/aksol/send-taxed-tx'')
               \<lparr> fromPubkey = k, toPubkey = Some toAddress, amountUi = Number_of w amount,
                 cluster = network_name (name n) \<rparr>,
             ReadJson, ConsoleLog ''Backend /aksol/send-taxed-tx response:'',
             ConsoleError ''Taxed send error:'',
             SetError (Some
               ''Backend did not return a signature or transaction. Check server logs.''),
             LogAction
               ''Taxed send failed: Backend did not return a signature or transaction. Check server logs.''
               JUndefined,
             SetLoading False]))"
proof (intro conjI impI)
  note r = assms(1-3)
  note v = assms(4,5)
  {
    assume h: "connected wal \<and> publicKey wal = Some pk \<and> signTransaction wal = Some sign
       \<and> toAddress \<noteq> [] \<and> 8 \<le> length (trim toAddress) \<and> \<not> truthy (field data ''sig'')"
    have s: "\<not> truthy (signature_of4 data)" and nn: "\<not> nullish data"
      using empty_signature4 [OF assms(6-8)] h by simp_all
    have t: "TaxedSendCard2_handleSubmit w e isMainnet wal toAddress amount =
       [PreventDefault, SetError None, SetTxSig JNull, SetLoading True] @
       catch_finally ''Taxed send error:'' ''Taxed send failed.'' ''Taxed send failed: ''
         (TaxedSendCard2_try w e isMainnet pk sign toAddress (Number_of w amount))"
      using h v by (simp add: TaxedSendCard2_handleSubmit_def Let_def)
    show "if truthy (base64Tx_of data)
          then \<exists>rest. TaxedSendCard2_handleSubmit w e isMainnet wal toAddress amount =
            [PreventDefault, SetError None, SetTxSig JNull, SetLoading True,
             Fetch (env_or (VITE_BACKEND_BASE_URL e) ''http://localhost:8080''
                     @ ''/aksol/send-taxed-tx'')
               \<lparr> fromPubkey = toBase58 pk, toPubkey = Some (trim toAddress),
                 amountUi = Number_of w amount,
                 cluster = (if isMainnet then ''mainnet-beta'' else ''devnet'') \<rparr>,
             ReadJson, ConsoleLog ''Backend /aksol/send-taxed-tx response:'',
             BufferFrom (base64Tx_of data)] @ rest
          else TaxedSendCard2_handleSubmit w e isMainnet wal toAddress amount =
            [PreventDefault, SetError None, SetTxSig JNull, SetLoading True,
             Fetch (env_or (VITE_BACKEND_BASE_URL e) ''http://localhost:8080''
                     @ ''/aksol/send-taxed-tx'')
               \<lparr> fromPubkey = toBase58 pk, toPubkey = Some (trim toAddress),
                 amountUi = Number_of w amount,
                 cluster = (if isMainnet then ''mainnet-beta'' else ''devnet'') \<rparr>,
             ReadJson, ConsoleLog ''Backend /aksol/send-taxed-tx response:'',
             ConsoleError ''Taxed send error:'',
             SetError (Some
               ''Backend did not return a signature or transaction. Check console logs for full response.''),
             LogAction
               ''Taxed send failed: Backend did not return a signature or transaction. Check console logs for full response.''
               JUndefined,
             SetLoading False]"
    proof (cases "truthy (base64Tx_of data)")
      case True
      obtain rest r where b: "TaxedSendCard2_try w e isMainnet pk sign toAddress (Number_of w amount) =
        ([Fetch (env_or (VITE_BACKEND_BASE_URL e) ''http://localhost:8080'' @ ''/aksol/send-taxed-tx'')
            \<lparr> fromPubkey = toBase58 pk, toPubkey = Some (trim toAddress),
              amountUi = Number_of w amount,
              cluster = (if isMainnet then ''mainnet-beta'' else ''devnet'') \<rparr>,
          ReadJson, ConsoleLog ''Backend /aksol/send-taxed-tx response:'',
          BufferFrom (base64Tx_of data)] @ rest, r)"
        using TaxedSendCard2_try_unsigned_starts [OF r s True] by blast
      show ?thesis using True by (simp add: t b catch_finally_pair)
    next
      case False
      show ?thesis
        using False nn
        by (simp add: t TaxedSendCard2_try_neither [OF r s False] catch_finally_def
            error_message_def)
    qed
  }
  {
    assume h: "backendBaseUrl = Some url \<and> url \<noteq> [] \<and> walletPublicKey = Some k \<and> k \<noteq> []
       \<and> toAddress \<noteq> [] \<and> amount \<noteq> []"
    have s: "\<not> truthy (signature_of3 data)" and nn: "\<not> nullish data"
      using empty_signature3 [OF assms(6-8)] by simp_all
    have eqs: "backendBaseUrl = Some url" "walletPublicKey = Some k"
      using h by simp_all
    have t: "TaxedSendCard3_handleSubmit w wal n (Some url) (Some k) toAddress amount =
       [PreventDefault, SetError None, SetTxSig JNull, SetLoading True] @
       catch_finally ''Taxed send error:'' ''Taxed send failed.'' ''Taxed send failed: ''
         (TaxedSendCard3_try w wal n url k toAddress (Number_of w amount))"
      using h v by (simp add: TaxedSendCard3_handleSubmit_def Let_def)
    show "if truthy (base64Tx_of data)
          then \<exists>rest. TaxedSendCard3_handleSubmit w wal n backendBaseUrl walletPublicKey
                         toAddress amount =
            [PreventDefault, SetError None, SetTxSig JNull, SetLoading True,
             Fetch (url @ ''/aksol/send-taxed-tx'')
               \<lparr> fromPubkey = k, toPubkey = Some toAddress, amountUi = Number_of w amount,
                 cluster = network_name (name n) \<rparr>,
             ReadJson, ConsoleLog ''Backend /aksol/send-taxed-tx response:'',
             Atob (js_String w (base64Tx_of data))] @ rest
          else TaxedSendCard3_handleSubmit w wal n backendBaseUrl walletPublicKey toAddress amount =
            [PreventDefault, SetError None, SetTxSig JNull, SetLoading True,
             Fetch (url @ ''/aksol/send-taxed-tx'')
               \<lparr> fromPubkey = k, toPubkey = Some toAddress, amountUi = Number_of w amount,
                 cluster = network_name (name n) \<rparr>,
             ReadJson, ConsoleLog ''Backend /aksol/send-taxed-tx response:'',
             ConsoleError ''Taxed send error:'',
             SetError (Some
               ''Backend did not return a signature or transaction. Check server logs.''),
             LogAction
               ''Taxed send failed: Backend did not return a signature or transaction. Check server logs.''
               JUndefined,
             SetLoading False]"
    proof (cases "truthy (base64Tx_of data)")
      case True
      obtain rest r where b: "TaxedSendCard3_try w wal n url k toAddress (Number_of w amount) =
        ([Fetch (url @ ''/aksol/send-taxed-tx'')
            \<lparr> fromPubkey = k, toPubkey = Some toAddress, amountUi = Number_of w amount,
              cluster = network_name (name n) \<rparr>,
          ReadJson, ConsoleLog ''Backend /aksol/send-taxed-tx response:'',
          Atob (js_String w (base64Tx_of data))] @ rest, r)"
        using TaxedSendCard3_try_unsigned_starts [OF r s True] by blast
      show ?thesis using True by (simp add: eqs t b catch_finally_pair)
    next
      case False
      show ?thesis
        using False nn
        by (simp add: eqs t TaxedSendCard3_try_neither [OF r s False] catch_finally_def
            error_message_def)
    qed
  }
qed

text \<open>
  The claim as stated has an empty \<open>signature\<close> field alone rule out the fast path. With
  \<open>{ok: true, signature: "", txSignature: "SIG123", transaction: "AAAA"}\<close> the second
  TaxedSendCard takes the fast path with \<open>txSignature\<close> and never looks at the transaction.
\<close>

theorem empty_signature_with_alias_takes_fast_path:
  "TaxedSendCard2_handleSubmit
     (test_world
        (ok_response (JObj [(''ok'', JBool True), (''signature'', JStr []),
                            (''txSignature'', JStr ''SIG123''), (''transaction'', JStr ''AAAA'')]))
        (Inr ()))
     test_env False test_wallet ''Wallet2Address'' ''0.5''
   = [PreventDefault, SetError None, SetTxSig JNull, SetLoading True,
      Fetch ''http://localhost:8080/aksol/send-taxed-tx''
        \<lparr> fromPubkey = ''Wallet1'', toPubkey = Some ''Wallet2Address'', amountUi = Num (1 / 2),
          cluster = ''devnet'' \<rparr>,
      ReadJson, ConsoleLog ''Backend /aksol/send-taxed-tx response:'',
      SetTxSig (JStr ''SIG123''), LogAction ''Taxed send (devnet)'' (JStr ''SIG123''),
      SetLoading False]"
  by (simp add: TaxedSendCard2_handleSubmit_def TaxedSendCard2_try_def post_json_cases
      reading_def exec_simps catch_finally_def signature_of4_def js_or_def trim_def js_space_def
      modeLabel_def env_or_def test_doubles)

text \<open>
  The response \<open>{ok: true, signature: ""}\<close>, and the same response with a transaction
  \<open>"AAAA"\<close>: the eighth call of the run is the decoding of that transaction.
\<close>

theorem empty_signature_falls_through_to_transaction_witness:
  "TaxedSendCard2_handleSubmit (test_world (ok_response (JObj [(''ok'', JBool True), (''signature'', JStr [])])) (Inr ())) test_env False test_wallet ''Wallet2Address'' ''0.5''
   = [PreventDefault, SetError None, SetTxSig JNull, SetLoading True,
      Fetch ''http://localhost:8080/aksol/send-taxed-tx''
        \<lparr> fromPubkey = ''Wallet1'', toPubkey = Some ''Wallet2Address'', amountUi = Num (1 / 2),
          cluster = ''devnet'' \<rparr>,
      ReadJson, ConsoleLog ''Backend /aksol/send-taxed-tx response:'',
      ConsoleError ''Taxed send error:'',
      SetError (Some
        ''Backend did not return a signature or transaction. Check console logs for full response.''),
      LogAction
        ''Taxed send failed: Backend did not return a signature or transaction. Check console logs for full response.''
        JUndefined,
      SetLoading False]
   \<and> TaxedSendCard3_handleSubmit (test_world (ok_response (JObj [(''ok'', JBool True), (''signature'', JStr [])])) (Inr ())) test_wallet test_network (Some ''http://localhost:8080'') (Some ''Wallet1'') ''Wallet2Address'' ''0.5''
   = [PreventDefault, SetError None, SetTxSig JNull, SetLoading True,
      Fetch ''http://localhost:8080/aksol/send-taxed-tx''
        \<lparr> fromPubkey = ''Wallet1'', toPubkey = Some ''Wallet2Address'', amountUi = Num (1 / 2),
          cluster = ''devnet'' \<rparr>,
      ReadJson, ConsoleLog ''Backend /aksol/send-taxed-tx response:'',
      ConsoleError ''Taxed send error:'',
      SetError (Some
        ''Backend did not return a signature or transaction. Check server logs.''),
      LogAction
        ''Taxed send failed: Backend did not return a signature or transaction. Check server logs.''
        JUndefined,
      SetLoading False]
   \<and> take 8 (TaxedSendCard2_handleSubmit (test_world (ok_response (JObj [(''ok'', JBool True), (''signature'', JStr []), (''transaction'', JStr ''AAAA'')])) (Inr ())) test_env False test_wallet ''Wallet2Address'' ''0.5'')
   = [PreventDefault, SetError None, SetTxSig JNull, SetLoading True,
      Fetch ''http://localhost:8080/aksol/send-taxed-tx''
        \<lparr> fromPubkey = ''Wallet1'', toPubkey = Some ''Wallet2Address'', amountUi = Num (1 / 2),
          cluster = ''devnet'' \<rparr>,
      ReadJson, ConsoleLog ''Backend /aksol/send-taxed-tx response:'',
      BufferFrom (JStr ''AAAA'')]
   \<and> take 8 (TaxedSendCard3_handleSubmit (test_world (ok_response (JObj [(''ok'', JBool True), (''signature'', JStr []), (''transaction'', JStr ''AAAA'')])) (Inr ())) test_wallet test_network (Some ''http://localhost:8080'') (Some ''Wallet1'') ''Wallet2Address'' ''0.5'')
   = [PreventDefault, SetError None, SetTxSig JNull, SetLoading True,
      Fetch ''http://localhost:8080/aksol/send-taxed-tx''
        \<lparr> fromPubkey = ''Wallet1'', toPubkey = Some ''Wallet2Address'', amountUi = Num (1 / 2),
          cluster = ''devnet'' \<rparr>,
      ReadJson, ConsoleLog ''Backend /aksol/send-taxed-tx response:'',
      Atob ''AAAA'']"
  using empty_signature_falls_through_to_transaction
    [where w = "test_world (ok_response (JObj [(''ok'', JBool True), (''signature'', JStr [])])) (Inr ())"
       and resp = "\<lparr> resp_ok = True, resp_status = 200, resp_json = Inr (JObj [(''ok'', JBool True), (''signature'', JStr [])]) \<rparr>"
       and data = "JObj [(''ok'', JBool True), (''signature'', JStr [])]"
       and amount = "''0.5''" and wal = test_wallet and pk = "PublicKey ''Wallet1''"
       and sign = "\<lambda>tx. Inr tx" and toAddress = "''Wallet2Address''" and e = test_env
       and isMainnet = False and n = test_network
       and backendBaseUrl = "Some ''http://localhost:8080''" and url = "''http://localhost:8080''"
       and walletPublicKey = "Some ''Wallet1''" and k = "''Wallet1''"]
    empty_signature_falls_through_to_transaction
    [where w = "test_world (ok_response (JObj [(''ok'', JBool True), (''signature'', JStr []), (''transaction'', JStr ''AAAA'')])) (Inr ())"
       and resp = "\<lparr> resp_ok = True, resp_status = 200, resp_json = Inr (JObj [(''ok'', JBool True), (''signature'', JStr []), (''transaction'', JStr ''AAAA'')]) \<rparr>"
       and data = "JObj [(''ok'', JBool True), (''signature'', JStr []), (''transaction'', JStr ''AAAA'')]"
       and amount = "''0.5''" and wal = test_wallet and pk = "PublicKey ''Wallet1''"
       and sign = "\<lambda>tx. Inr tx" and toAddress = "''Wallet2Address''" and e = test_env
       and isMainnet = False and n = test_network
       and backendBaseUrl = "Some ''http://localhost:8080''" and url = "''http://localhost:8080''"
       and walletPublicKey = "Some ''Wallet1''" and k = "''Wallet1''"]
  by (auto simp add: test_doubles base64Tx_of_def js_or_def js_String_def trim_def js_space_def
      env_or_def)

section \<open>The envelope decoder\<close>

text \<open>
  Claim C7, as amended. \<open>decodeTransaction\<close> first decodes the base64 string to bytes, then
  tries the versioned format, and tries the legacy format on any failure of the versioned
  parse, on the same bytes. A versioned parse that succeeds is the result and the legacy
  parser is not called. It fails when the base64 decoding throws, before any parse is
  tried, with the decoder's error; and when both parses fail, with the legacy parser's
  error.
\<close>

theorem decodeTransaction_order:
  "decodeTransaction w base64 =
     (case atob w base64 of
        Inl e \<Rightarrow> ([Atob base64], Inl e)
      | Inr binary \<Rightarrow>
          (case VersionedTransaction_deserialize w (map of_char binary) of
             Inr v \<Rightarrow> ([Atob base64, DeserializeVersioned (map of_char binary)], Inr (Versioned v))
           | Inl e1 \<Rightarrow>
               (case Transaction_from w (map of_char binary) of
                  Inr t \<Rightarrow>
                    ([Atob base64, DeserializeVersioned (map of_char binary),
                      TransactionFrom (map of_char binary)], Inr (Legacy t))
                | Inl e2 \<Rightarrow>
                    ([Atob base64, DeserializeVersioned (map of_char binary),
                      TransactionFrom (map of_char binary)], Inl e2))))"
  by (simp add: decodeTransaction_def base64ToUint8Array_def exec_simps
      copy_char_codes_map split: sum.splits)

text \<open>
  The claim as stated has \<open>decodeTransaction\<close> fail only when both parses fail. On a
  string that is not base64 it fails and no parse was tried.
\<close>

theorem decodeTransaction_fails_before_any_parse:
  "snd (decodeTransaction (test_world (ok_response JNull) (Inr ())) ''!'')
     = Inl (ErrorObj ''InvalidCharacterError'')
   \<and> filter is_parse (fst (decodeTransaction (test_world (ok_response JNull) (Inr ())) ''!'')) = []"
  by (simp add: decodeTransaction_def base64ToUint8Array_def exec_simps test_world_def
      base64_alphabet_def)

text \<open>A versioned envelope, and one that only the legacy parser accepts.\<close>

theorem decodeTransaction_order_witness:
  "decodeTransaction (test_world (ok_response JNull) (Inr ())) ''VAAA''
     = ([Atob ''VAAA'', DeserializeVersioned [86, 65, 65, 65]],
        Inr (Versioned (VersionedTransaction [86, 65, 65, 65])))
   \<and> decodeTransaction (test_world (ok_response JNull) (Inr ())) ''AAAA''
     = ([Atob ''AAAA'', DeserializeVersioned [65, 65, 65, 65], TransactionFrom [65, 65, 65, 65]],
        Inr (Legacy \<lparr> feePayer = None, message = [65, 65, 65, 65] \<rparr>))"
  using decodeTransaction_order [of "test_world (ok_response JNull) (Inr ())" "''VAAA''"]
    decodeTransaction_order [of "test_world (ok_response JNull) (Inr ())" "''AAAA''"]
  by (simp add: test_world_def base64_alphabet_def)

end
